theory Spec2Isabelle
  imports Complex_Main "HOL-Library.Sublist"
begin

section \<open>JavaScript numbers\<close>

text \<open>
  A JavaScript number is an IEEE double: a finite value, one of the two infinities, or
  NaN. The finite doubles are real numbers and the comparison operators order them as
  such, so a finite number is modelled by its real value (both zeros are the real 0: they
  compare equal and both are falsy). Every statement proved for all reals holds for all
  doubles. The inputs of the examples (0, 1, 0.5, 50, ...) are doubles; the thresholds
  0.001 and 0.01 of the example configuration stand for the nearest doubles, and no
  example compares a price with them.
\<close>

datatype number = Finite real | PosInfinity | NegInfinity | NaN

text \<open>Truthiness of a number: \<open>0\<close>, \<open>-0\<close> and \<open>NaN\<close> are falsy, every other number is truthy.\<close>

fun truthy :: "number \<Rightarrow> bool" where
  "truthy (Finite r) = (r \<noteq> 0)"
| "truthy PosInfinity = True"
| "truthy NegInfinity = True"
| "truthy NaN = False"

text \<open>\<open>x <= y\<close> on numbers: false as soon as one side is NaN.\<close>

fun num_le :: "number \<Rightarrow> number \<Rightarrow> bool" where
  "num_le NaN y = False"
| "num_le x NaN = False"
| "num_le NegInfinity y = True"
| "num_le x PosInfinity = True"
| "num_le (Finite a) (Finite b) = (a \<le> b)"
| "num_le PosInfinity y = False"
| "num_le x NegInfinity = False"

text \<open>\<open>x >= y\<close> and \<open>x < y\<close> on numbers.\<close>

definition num_ge :: "number \<Rightarrow> number \<Rightarrow> bool" where
  "num_ge x y = num_le y x"

fun num_lt :: "number \<Rightarrow> number \<Rightarrow> bool" where
  "num_lt NaN y = False"
| "num_lt x NaN = False"
| "num_lt (Finite a) (Finite b) = (a < b)"
| "num_lt PosInfinity y = False"
| "num_lt x NegInfinity = False"
| "num_lt NegInfinity y = True"
| "num_lt x PosInfinity = True"

text \<open>
  \<open>x || d\<close> where \<open>x\<close> is a configuration field holding a number or nothing
  (\<open>None\<close> is \<open>undefined\<close>, which is falsy).
\<close>

fun or_default :: "number option \<Rightarrow> number \<Rightarrow> number" where
  "or_default None d = d"
| "or_default (Some x) d = (if truthy x then x else d)"

section \<open>Configuration\<close>

text \<open>
  The configuration object as the bot reads it. An absent field is \<open>None\<close>. The two
  percentage-change triggers are part of the shape, and \<open>checkPriceConditions\<close> reads
  them into branches with an empty body.

  \<open>swapAmountWei\<close> stands for \<open>ethers.utils.parseEther(config.swapAmount.toString())\<close>:
  the rendering of a double as a decimal literal is outside the model, so the
  configuration carries the outcome of that expression, an error when \<open>swapAmount\<close> is
  absent or its rendering is not a decimal literal of at most 18 fractional digits.
\<close>

datatype error =
    Error string        \<comment> \<open>\<open>new Error(message)\<close>, or a failure reported by a collaborator\<close>
  | TypeError           \<comment> \<open>a property read on \<open>undefined\<close>\<close>
  | Underflow           \<comment> \<open>ethers: a fractional part that does not fit\<close>
  | Overflow            \<comment> \<open>ethers: a number outside the safe integer range\<close>
  | InvalidBigNumber    \<comment> \<open>ethers: not the literal of an integer\<close>

record buy_rule =
  priceBelow :: "number option"
  priceIncrease :: "number option"

record sell_rule =
  priceAbove :: "number option"
  priceDecrease :: "number option"

record conditions =
  buyWhen :: "buy_rule option"
  sellWhen :: "sell_rule option"

record config =
  conditions :: "conditions option"
  swapAmountWei :: "error + int"
  sellPercentage :: "number option"
  slippage :: "number option"
  checkInterval :: "number option"

section \<open>Condition evaluation\<close>

datatype action = Buy | Sell

text \<open>
  The reason is a template literal around the threshold; it is kept as the template's
  name and the interpolated number.
\<close>

datatype reason = PriceBelow number | PriceAbove number

record intent =
  action :: action
  reason :: reason

text \<open>
  \<open>checkPriceConditions(currentPrice)\<close>. \<open>null\<close> is \<open>None\<close>. Reading
  \<open>conditions.buyWhen\<close> when \<open>config.conditions\<close> is \<open>undefined\<close> throws a TypeError,
  which rejects the promise the function returns.
\<close>

definition checkPriceConditions :: "config \<Rightarrow> number \<Rightarrow> error + intent option" where
  "checkPriceConditions cfg currentPrice =
     (case conditions cfg of
        None \<Rightarrow> Inl TypeError
      | Some conds \<Rightarrow>
          (case (case buyWhen conds of
                   None \<Rightarrow> None
                 | Some bw \<Rightarrow>
                     (case priceBelow bw of
                        None \<Rightarrow> None
                      | Some b \<Rightarrow>
                          if truthy b \<and> num_le currentPrice b
                          then Some \<lparr>action = Buy, reason = PriceBelow b\<rparr>
                          else None)) of
             Some i \<Rightarrow> Inr (Some i)
           | None \<Rightarrow>
               (case sellWhen conds of
                  None \<Rightarrow> Inr None
                | Some sw \<Rightarrow>
                    (case priceAbove sw of
                       None \<Rightarrow> Inr None
                     | Some a \<Rightarrow>
                         if truthy a \<and> num_ge currentPrice a
                         then Inr (Some \<lparr>action = Sell, reason = PriceAbove a\<rparr>)
                         else Inr None))))"

text \<open>The rules \<open>{buyWhen: {priceBelow: b}, sellWhen: {priceAbove: a}}\<close>.\<close>

definition rules :: "number \<Rightarrow> number \<Rightarrow> conditions" where
  "rules b a =
     \<lparr>buyWhen = Some \<lparr>priceBelow = Some b, priceIncrease = None\<rparr>,
      sellWhen = Some \<lparr>priceAbove = Some a, priceDecrease = None\<rparr>\<rparr>"

text \<open>The action of the result, when the call returns an intent.\<close>

definition action_of :: "error + intent option \<Rightarrow> action option" where
  "action_of r = (case r of Inr (Some i) \<Rightarrow> Some (action i) | _ \<Rightarrow> None)"

section \<open>Amounts\<close>

text \<open>
  A decimal literal, as \<open>ethers.utils.formatUnits\<close> prints one and
  \<open>ethers.utils.parseUnits\<close> reads one: the number \<open>units / 10 ^ scale\<close>.
  \<open>formatUnits(balance, d)\<close> is the literal of \<open>balance / 10 ^ d\<close>, and the
  literal \<open>'0'\<close> that \<open>getWalletBalance\<close> returns on failure is \<open>zero_literal\<close>.
\<close>

record decimal =
  units :: int
  scale :: nat

definition formatUnits :: "nat \<Rightarrow> nat \<Rightarrow> decimal" where
  "formatUnits balance d = \<lparr>units = int balance, scale = d\<rparr>"

definition formatEther :: "nat \<Rightarrow> decimal" where
  "formatEther balance = formatUnits balance 18"

definition zero_literal :: decimal where
  "zero_literal = \<lparr>units = 0, scale = 0\<rparr>"

text \<open>
  \<open>parseUnits(literal, d)\<close> (ethers 5, \<open>parseFixed\<close>): the literal times \<open>10 ^ d\<close>; it
  drops trailing zeros of the fraction and then throws the fault \<open>underflow\<close> when more
  than \<open>d\<close> fractional digits are left, which is when the product is not an integer.
\<close>

definition parseUnits :: "decimal \<Rightarrow> nat \<Rightarrow> error + int" where
  "parseUnits v d =
     (if (10 ^ scale v) dvd (units v * 10 ^ d)
      then Inr ((units v * 10 ^ d) div (10 ^ scale v))
      else Inl Underflow)"

text \<open>
  \<open>BigNumber.from(value)\<close> for a JavaScript number (ethers 5): \<open>value % 1\<close> non-zero is
  the fault \<open>underflow\<close>, a value at or beyond \<open>MAX_SAFE = 0x1fffffffffffff\<close> is the
  fault \<open>overflow\<close> (for an infinity \<open>value % 1\<close> is NaN, which is falsy, so the range
  test decides), and the rest goes through the decimal rendering of the integer.
\<close>

definition MAX_SAFE :: real where
  "MAX_SAFE = 9007199254740991"

fun BigNumber_from :: "number \<Rightarrow> error + int" where
  "BigNumber_from (Finite r) =
     (if of_int \<lfloor>r\<rfloor> \<noteq> r then Inl Underflow
      else if r \<ge> MAX_SAFE \<or> r \<le> - MAX_SAFE then Inl Overflow
      else Inr \<lfloor>r\<rfloor>)"
| "BigNumber_from PosInfinity = Inl Overflow"
| "BigNumber_from NegInfinity = Inl Overflow"
| "BigNumber_from NaN = Inl InvalidBigNumber"

text \<open>
  \<open>a.div(b)\<close> on BigNumbers with \<open>b\<close> non-zero (here always the literal 100): the
  quotient rounded towards zero, as BN.js divides.
\<close>

definition bn_div :: "int \<Rightarrow> int \<Rightarrow> int" where
  "bn_div a b = sgn a * sgn b * (\<bar>a\<bar> div \<bar>b\<bar>)"

text \<open>
  The sizing of a sell, the two lines
  \<^verbatim>\<open>const tokenBalanceWei = ethers.utils.parseUnits(tokenBalance, 18);\<close>
  \<^verbatim>\<open>const swapAmount = tokenBalanceWei.mul(this.config.sellPercentage || 100).div(100);\<close>
  of \<open>monitorAndSwap\<close>. \<open>sellAmount\<close> is the second line, from \<open>tokenBalanceWei\<close>.
\<close>

definition sellAmount :: "config \<Rightarrow> int \<Rightarrow> error + int" where
  "sellAmount cfg tokenBalanceWei =
     (case BigNumber_from (or_default (sellPercentage cfg) (Finite 100)) of
        Inl e \<Rightarrow> Inl e
      | Inr s \<Rightarrow> Inr (bn_div (tokenBalanceWei * s) 100))"

definition sellSizing :: "config \<Rightarrow> decimal \<Rightarrow> error + int" where
  "sellSizing cfg tokenBalance =
     (case parseUnits tokenBalance 18 of
        Inl e \<Rightarrow> Inl e
      | Inr tokenBalanceWei \<Rightarrow> sellAmount cfg tokenBalanceWei)"

section \<open>The bot and its effects\<close>

text \<open>
  An entry of the log buffer. \<open>log(message)\<close> prefixes the message with the clock's ISO
  timestamp; the clock is outside the model and an entry is its message: the template
  the source writes, with the interpolated values.
\<close>

datatype message =
    BotInitialized                      \<comment> \<open>\<open>Bot initialized successfully\<close>\<close>
  | ErrorFetchingTokenPrice error       \<comment> \<open>\<open>Error fetching token price: ...\<close>\<close>
  | ErrorGettingSwapQuote error         \<comment> \<open>\<open>Error getting swap quote: ...\<close>\<close>
  | SwapExecuted string                 \<comment> \<open>\<open>Swap executed! TX Hash: ...\<close>\<close>
  | SwapConfirmed nat                   \<comment> \<open>\<open>Swap confirmed! Block: ...\<close>\<close>
  | ErrorExecutingSwap error            \<comment> \<open>\<open>Error executing swap: ...\<close>\<close>
  | ErrorGettingWalletBalance error     \<comment> \<open>\<open>Error getting wallet balance: ...\<close>\<close>
  | StartingPriceMonitoring             \<comment> \<open>\<open>Starting price monitoring...\<close>\<close>
  | CurrentTokenPrice number            \<comment> \<open>\<open>Current token price: $...\<close>\<close>
  | ConditionMet reason action          \<comment> \<open>\<open>Condition met: ... - Action: ...\<close>\<close>
  | Balances decimal decimal            \<comment> \<open>\<open>ETH Balance: ..., Token Balance: ...\<close>\<close>
  | BuyOrderExecuted                    \<comment> \<open>\<open>Buy order executed successfully!\<close>\<close>
  | SellOrderExecuted                   \<comment> \<open>\<open>Sell order executed successfully!\<close>\<close>
  | ErrorInMonitoringLoop error         \<comment> \<open>\<open>Error in monitoring loop: ...\<close>\<close>
  | BotAlreadyRunning                   \<comment> \<open>\<open>Bot is already running\<close>\<close>
  | StartingBot                         \<comment> \<open>\<open>Starting OKX Auto Swap Bot...\<close>\<close>
  | BotNotRunning                       \<comment> \<open>\<open>Bot is not running\<close>\<close>
  | StoppingBot                         \<comment> \<open>\<open>Stopping OKX Auto Swap Bot...\<close>\<close>

text \<open>The fields of an \<open>OKXAutoSwapBot\<close> object.\<close>

record bot =
  config :: config
  walletAddress :: string
  tokenAddress :: string
  chainId :: nat
  isRunning :: bool
  logs :: "message list"

text \<open>
  The bot writes its log buffer to the file \<open>swap_logs.txt\<close> at every \<open>log\<close>, and the write
  can fail (\<open>fs.writeFileSync\<close> throws on an I/O error). The state of a run is the bot
  together with the file system it runs on: \<open>disk buffer\<close> is the error with which the
  write of \<open>buffer\<close> is refused, \<open>None\<close> when it is accepted. Every \<open>log\<close> makes the buffer
  longer, so every write of a run has an answer of its own; the file system is not a
  field of the object, and nothing the bot does changes it.
\<close>

record world = bot +
  disk :: "message list \<Rightarrow> error option"

text \<open>The transaction template of a swap-build response, and the transaction built from it.\<close>

record txData =
  to_address :: string
  calldata :: string
  value_field :: "string option"   \<comment> \<open>\<open>None\<close>: absent or falsy\<close>
  gasLimit_field :: "string option"

record tx =
  tx_to :: string
  tx_data :: string
  tx_value :: string
  tx_gasLimit :: string
  tx_gasPrice :: nat               \<comment> \<open>in wei\<close>

text \<open>
  A call the bot makes to a collaborator: the three requests to the aggregator (with the
  parameters that vary: the token, or source, destination and amount), the submission of
  a transaction to the signer and the wait for its receipt, the three ledger queries,
  and the timer.
\<close>

datatype call =
    GetTokens string                    \<comment> \<open>GET \<open>/aggregator/tokens\<close>\<close>
  | GetQuote string string int          \<comment> \<open>GET \<open>/aggregator/quote\<close>\<close>
  | PostSwap string string int          \<comment> \<open>POST \<open>/aggregator/swap\<close>\<close>
  | SendTransaction tx                  \<comment> \<open>\<open>wallet.sendTransaction(tx)\<close>\<close>
  | WaitConfirmation string             \<comment> \<open>\<open>transaction.wait()\<close>, by transaction hash\<close>
  | GetBalance                          \<comment> \<open>\<open>wallet.getBalance()\<close>\<close>
  | BalanceOf string                    \<comment> \<open>\<open>tokenContract.balanceOf(address)\<close>\<close>
  | Decimals string                     \<comment> \<open>\<open>tokenContract.decimals()\<close>\<close>
  | Sleep number                        \<comment> \<open>\<open>sleep(ms)\<close>\<close>

text \<open>The amount a call to the aggregator carries, and the amounts of a list of calls.\<close>

fun requested_amount :: "call \<Rightarrow> int option" where
  "requested_amount (GetQuote f t n) = Some n"
| "requested_amount (PostSwap f t n) = Some n"
| "requested_amount c = None"

definition requested_amounts :: "call list \<Rightarrow> int list" where
  "requested_amounts cs = List.map_filter requested_amount cs"

text \<open>Whether a call submits a transaction to the signer.\<close>

fun is_submission :: "call \<Rightarrow> bool" where
  "is_submission (SendTransaction t) = True"
| "is_submission c = False"

text \<open>
  A method of the bot is a function from the state to an outcome (\<open>Inl\<close>: it threw, or
  the promise it returned was rejected), the state it leaves and the calls it made, in
  order. What a collaborator answers is an input of the model; the collaborators reject
  with \<open>Error\<close> objects, whose \<open>message\<close> the handlers read.
\<close>

type_synonym 'a io = "world \<Rightarrow> (error + 'a) \<times> world \<times> call list"

definition outcome_of :: "(error + 'a) \<times> world \<times> call list \<Rightarrow> error + 'a" where
  "outcome_of r = fst r"

definition state_of :: "(error + 'a) \<times> world \<times> call list \<Rightarrow> world" where
  "state_of r = fst (snd r)"

definition calls_of :: "(error + 'a) \<times> world \<times> call list \<Rightarrow> call list" where
  "calls_of r = snd (snd r)"

definition io_return :: "'a \<Rightarrow> 'a io" where
  "io_return x = (\<lambda>s. (Inr x, s, []))"

text \<open>Sequencing: a throw skips what follows.\<close>

definition io_bind :: "'a io \<Rightarrow> ('a \<Rightarrow> 'b io) \<Rightarrow> 'b io" where
  "io_bind m f =
     (\<lambda>s. case m s of
        (Inl e, s1, cs) \<Rightarrow> (Inl e, s1, cs)
      | (Inr x, s1, cs) \<Rightarrow> (case f x s1 of (r, s2, cs') \<Rightarrow> (r, s2, cs @ cs')))"

text \<open>\<open>try { m } catch (error) { h error }\<close>.\<close>

definition try_catch :: "'a io \<Rightarrow> (error \<Rightarrow> 'a io) \<Rightarrow> 'a io" where
  "try_catch m h =
     (\<lambda>s. case m s of
        (Inl e, s1, cs) \<Rightarrow> (case h e s1 of (r, s2, cs') \<Rightarrow> (r, s2, cs @ cs'))
      | (Inr x, s1, cs) \<Rightarrow> (Inr x, s1, cs))"

text \<open>\<open>await\<close> of a call to a collaborator, whose answer is \<open>answer\<close>.\<close>

definition await :: "call \<Rightarrow> error + 'a \<Rightarrow> 'a io" where
  "await c answer = (\<lambda>s. (answer, s, [c]))"

text \<open>The value of an expression that may throw and has no effect.\<close>

definition io_lift :: "error + 'a \<Rightarrow> 'a io" where
  "io_lift r = (\<lambda>s. (r, s, []))"

text \<open>Reading \<open>this\<close>.\<close>

definition io_self :: "world io" where
  "io_self = (\<lambda>s. (Inr s, s, []))"

text \<open>
  \<open>saveLogs()\<close>, called when the buffer is \<open>buffer\<close>: \<open>fs.writeFileSync\<close> writes the joined
  buffer to \<open>swap_logs.txt\<close>, or throws.
\<close>

definition saveLogs :: "world \<Rightarrow> message list \<Rightarrow> error + unit" where
  "saveLogs s buffer = (case disk s buffer of None \<Rightarrow> Inr () | Some e \<Rightarrow> Inl e)"

text \<open>
  \<open>log(message)\<close>: the entry is printed to the console, pushed onto \<open>this.logs\<close>, and the
  buffer is saved. When the save throws, \<open>log\<close> throws, with the entry already in the
  buffer. Printing to the console is taken not to throw.
\<close>

definition log_message :: "message \<Rightarrow> unit io" where
  "log_message m =
     (\<lambda>s. (saveLogs s (logs s @ [m]), s\<lparr>logs := logs s @ [m]\<rparr>, []))"

text \<open>\<open>sleep(ms)\<close>: the timer always fires.\<close>

definition sleep :: "number \<Rightarrow> unit io" where
  "sleep ms = await (Sleep ms) (Inr ())"

subsection \<open>The wrappers of the external calls\<close>

text \<open>
  The answer to an HTTP request: \<open>Inl\<close> when awaiting it threw (transport error, or a body
  without \<open>data\<close>), else \<open>response.data.code\<close> and \<open>response.data.data\<close>, \<open>None\<close> for a falsy
  payload. A code that is not a string compares like a string other than \<open>'0'\<close>.
\<close>

type_synonym 'a http = "error + string \<times> 'a option"

text \<open>
  The check each wrapper makes on the response,
  \<^verbatim>\<open>if (response.data.code === '0' && response.data.data) { ... }\<close>
  followed by \<^verbatim>\<open>throw new Error(failure)\<close>: the payload, or the error thrown.
\<close>

definition payload :: "string \<Rightarrow> string \<times> 'a option \<Rightarrow> error + 'a" where
  "payload failure response =
     (case response of (code, d) \<Rightarrow>
        (if code = ''0'' then (case d of Some x \<Rightarrow> Inr x | None \<Rightarrow> Inl (Error failure))
         else Inl (Error failure)))"

text \<open>
  What a wrapper has after the request and the check: the payload, or the error that
  reaches its \<open>catch\<close> (the one awaiting threw, or the one the check threw).
\<close>

definition request_result :: "string \<Rightarrow> 'a http \<Rightarrow> error + 'a" where
  "request_result failure answer =
     (case answer of Inl e \<Rightarrow> Inl e | Inr response \<Rightarrow> payload failure response)"

text \<open>
  The token data of a price response is kept as \<open>parseFloat(tokenData.price)\<close>, NaN when
  the field is missing or is no number.
\<close>

record tokenData =
  price :: number

definition getTokenPrice :: "tokenData http \<Rightarrow> string \<Rightarrow> tokenData option io" where
  "getTokenPrice answer tokenAddr =
     try_catch
       (io_bind (await (GetTokens tokenAddr) answer) (\<lambda>response.
        io_bind (io_lift (payload ''Failed to fetch token price'' response)) (\<lambda>d.
        io_return (Some d))))
       (\<lambda>e. io_bind (log_message (ErrorFetchingTokenPrice e)) (\<lambda>_. io_return None))"

text \<open>The route data of a quote is opaque: only its presence is used.\<close>

definition getSwapQuote :: "string http \<Rightarrow> string \<Rightarrow> string \<Rightarrow> int \<Rightarrow> string option io" where
  "getSwapQuote answer fromToken toToken amount =
     try_catch
       (io_bind (await (GetQuote fromToken toToken amount) answer) (\<lambda>response.
        io_bind (io_lift (payload ''Failed to get swap quote'' response)) (\<lambda>d.
        io_return (Some d))))
       (\<lambda>e. io_bind (log_message (ErrorGettingSwapQuote e)) (\<lambda>_. io_return None))"

record swapData =
  fromToken :: string
  toToken :: string
  amount :: int

text \<open>The object \<open>executeSwap\<close> returns: \<open>{success, txHash, receipt}\<close> or \<open>{success, error}\<close>.\<close>

record swapOutcome =
  success :: bool
  txHash :: "string option"
  receipt :: "nat option"          \<comment> \<open>the receipt, by its block number\<close>
  error_message :: "error option"

text \<open>What the collaborators of \<open>executeSwap\<close> answer.\<close>

record swap_answers =
  swap_response :: "txData list http"   \<comment> \<open>the swap-build request; the payload is an array\<close>
  send_result :: "error + string"       \<comment> \<open>\<open>sendTransaction\<close>: the transaction hash\<close>
  wait_result :: "error + nat"          \<comment> \<open>\<open>wait\<close>: the receipt's block number\<close>

text \<open>\<open>x || d\<close> on an optional string field.\<close>

definition or_string :: "string option \<Rightarrow> string \<Rightarrow> string" where
  "or_string x d = (case x of None \<Rightarrow> d | Some v \<Rightarrow> v)"

text \<open>
  The transaction \<open>executeSwap\<close> builds from the template: \<open>value\<close> defaults to
  \<open>'0'\<close>, \<open>gasLimit\<close> to \<open>'500000'\<close>, and the gas price is \<open>parseUnits('1', 'gwei')\<close>.
\<close>

definition build_tx :: "txData \<Rightarrow> tx" where
  "build_tx txData =
     \<lparr>tx_to = to_address txData,
      tx_data = calldata txData,
      tx_value = or_string (value_field txData) ''0'',
      tx_gasLimit = or_string (gasLimit_field txData) ''500000'',
      tx_gasPrice = 1000000000\<rparr>"

text \<open>
  \<open>executeSwap(swapData)\<close>. \<open>response.data.data[0]\<close> of an empty array is \<open>undefined\<close>,
  and reading \<open>txData.to\<close> then throws a TypeError inside the \<open>try\<close>.
\<close>

definition executeSwap :: "swap_answers \<Rightarrow> swapData \<Rightarrow> swapOutcome io" where
  "executeSwap answers swap =
     try_catch
       (io_bind (await (PostSwap (fromToken swap) (toToken swap) (amount swap))
                   (swap_response answers)) (\<lambda>response.
        io_bind (io_lift (payload ''Failed to execute swap'' response)) (\<lambda>d.
        io_bind (io_lift (case d of [] \<Rightarrow> Inl TypeError | txData # _ \<Rightarrow> Inr txData)) (\<lambda>txData.
        io_bind (await (SendTransaction (build_tx txData)) (send_result answers)) (\<lambda>hash.
        io_bind (log_message (SwapExecuted hash)) (\<lambda>_.
        io_bind (await (WaitConfirmation hash) (wait_result answers)) (\<lambda>blockNumber.
        io_bind (log_message (SwapConfirmed blockNumber)) (\<lambda>_.
        io_return
          \<lparr>success = True, txHash = Some hash, receipt = Some blockNumber,
           error_message = None\<rparr>))))))))
       (\<lambda>e. io_bind (log_message (ErrorExecutingSwap e)) (\<lambda>_.
             io_return
               \<lparr>success = False, txHash = None, receipt = None, error_message = Some e\<rparr>))"

text \<open>What the ledger answers to the queries of one \<open>getWalletBalance\<close>.\<close>

record ledger =
  native_balance :: "error + nat"
  token_balance :: "error + nat"
  token_decimals :: "error + nat"

definition AddressZero :: string where
  "AddressZero = ''0x0000000000000000000000000000000000000000''"

definition getWalletBalance :: "ledger \<Rightarrow> string \<Rightarrow> decimal io" where
  "getWalletBalance answers tokenAddr =
     try_catch
       (if tokenAddr = ''ETH'' \<or> tokenAddr = AddressZero
        then io_bind (await GetBalance (native_balance answers)) (\<lambda>balance.
             io_return (formatEther balance))
        else io_bind (await (BalanceOf tokenAddr) (token_balance answers)) (\<lambda>balance.
             io_bind (await (Decimals tokenAddr) (token_decimals answers)) (\<lambda>decimals.
             io_return (formatUnits balance decimals))))
       (\<lambda>e. io_bind (log_message (ErrorGettingWalletBalance e)) (\<lambda>_. io_return zero_literal))"

subsection \<open>The monitoring loop\<close>

text \<open>
  What the collaborators answer during one iteration of the loop, and whether the host
  calls \<open>stop()\<close> while the iteration is suspended in its last \<open>await\<close>, the sleep. The
  host is the caller of that \<open>stop()\<close>: what it throws goes to the host, and the loop goes
  on in the state it leaves.
\<close>

record iteration_answers =
  price_response :: "tokenData http"
  eth_ledger :: ledger
  token_ledger :: ledger
  quote_response :: "string http"
  swap_answers :: swap_answers
  stop_called :: bool

text \<open>
  The quote and the execution of a sized swap. Both branches of \<open>monitorAndSwap\<close> have
  this shape; they differ in the direction, the amount and the entry logged on success.
  \<^verbatim>\<open>const quote = await this.getSwapQuote(from, to, swapAmount.toString());\<close>
  \<^verbatim>\<open>if (quote) {\<close>
  \<^verbatim>\<open>    const result = await this.executeSwap({fromToken, toToken, amount});\<close>
  \<^verbatim>\<open>    if (result.success) { this.log(executed); }\<close>
  \<^verbatim>\<open>}\<close>
  The source has no value for the whole; the model returns what \<open>result\<close> was bound to,
  \<open>None\<close> when \<open>executeSwap\<close> was not called.
\<close>

definition quote_and_execute ::
  "iteration_answers \<Rightarrow> string \<Rightarrow> string \<Rightarrow> int \<Rightarrow> message \<Rightarrow> swapOutcome option io" where
  "quote_and_execute answers from_token to_token swapAmount executed =
     io_bind (getSwapQuote (quote_response answers) from_token to_token swapAmount) (\<lambda>quote.
     case quote of
       None \<Rightarrow> io_return None
     | Some _ \<Rightarrow>
         io_bind (executeSwap (swap_answers answers)
                    \<lparr>fromToken = from_token, toToken = to_token, amount = swapAmount\<rparr>) (\<lambda>result.
         io_bind (if success result then log_message executed else io_return ()) (\<lambda>_.
         io_return (Some result))))"

text \<open>The \<open>buy\<close> branch: the configured amount of the base asset.\<close>

definition buy_branch :: "iteration_answers \<Rightarrow> swapOutcome option io" where
  "buy_branch answers =
     io_bind io_self (\<lambda>self.
     io_bind (io_lift (swapAmountWei (config self))) (\<lambda>swapAmount.
     quote_and_execute answers AddressZero (tokenAddress self) swapAmount BuyOrderExecuted))"

text \<open>The \<open>sell\<close> branch: the configured percentage of the token balance read before.\<close>

definition sell_branch :: "iteration_answers \<Rightarrow> decimal \<Rightarrow> swapOutcome option io" where
  "sell_branch answers tokenBalance =
     io_bind io_self (\<lambda>self.
     io_bind (io_lift (sellSizing (config self) tokenBalance)) (\<lambda>swapAmount.
     quote_and_execute answers (tokenAddress self) AddressZero swapAmount SellOrderExecuted))"

text \<open>
  What follows a met condition: the entry, the two balance reads, and the branch of the
  action.
\<close>

definition act_on :: "iteration_answers \<Rightarrow> intent \<Rightarrow> unit io" where
  "act_on answers condition =
     io_bind io_self (\<lambda>self.
     io_bind (log_message (ConditionMet (reason condition) (action condition))) (\<lambda>_.
     io_bind (getWalletBalance (eth_ledger answers) ''ETH'') (\<lambda>ethBalance.
     io_bind (getWalletBalance (token_ledger answers) (tokenAddress self)) (\<lambda>tokenBalance.
     io_bind (log_message (Balances ethBalance tokenBalance)) (\<lambda>_.
     io_bind
       (case action condition of
          Buy \<Rightarrow> buy_branch answers
        | Sell \<Rightarrow> sell_branch answers tokenBalance) (\<lambda>_.
     io_return ()))))))"

text \<open>The body of the \<open>try\<close> block of the loop; \<open>continue\<close> ends the body.\<close>

definition loop_body :: "iteration_answers \<Rightarrow> unit io" where
  "loop_body answers =
     io_bind io_self (\<lambda>self.
     io_bind (getTokenPrice (price_response answers) (tokenAddress self)) (\<lambda>tokenData.
     case tokenData of
       None \<Rightarrow> sleep (or_default (checkInterval (config self)) (Finite 30000))
     | Some td \<Rightarrow>
         io_bind (log_message (CurrentTokenPrice (price td))) (\<lambda>_.
         io_bind (io_lift (checkPriceConditions (config self) (price td))) (\<lambda>condition.
         io_bind
           (case condition of
              None \<Rightarrow> io_return ()
            | Some c \<Rightarrow> act_on answers c) (\<lambda>_.
         sleep (or_default (checkInterval (config self)) (Finite 30000)))))))"

text \<open>One trip through the \<open>while\<close>: the \<open>try\<close> block and the \<open>catch\<close> at the loop boundary.\<close>

definition iteration :: "iteration_answers \<Rightarrow> unit io" where
  "iteration answers =
     try_catch (loop_body answers)
       (\<lambda>e. io_bind (log_message (ErrorInMonitoringLoop e)) (\<lambda>_. sleep (Finite 5000)))"

text \<open>\<open>stop()\<close>.\<close>

definition stop :: "unit io" where
  "stop =
     (\<lambda>s. if \<not> isRunning s then log_message BotNotRunning s
          else log_message StoppingBot (s\<lparr>isRunning := False\<rparr>))"

text \<open>A call the host makes while the loop is suspended: its outcome is the host's.\<close>

definition host_call :: "'a io \<Rightarrow> unit io" where
  "host_call m = (\<lambda>s. (Inr (), state_of (m s), calls_of (m s)))"

text \<open>
  The loop \<open>while (this.isRunning) { ... }\<close>, run against the answers of as many iterations
  as the list holds. The loop may run forever; it has either left the \<open>while\<close>
  (\<open>Exited\<close>) or is about to start an iteration for which the list has no answers
  (\<open>Waiting\<close>). A throw that escaped the loop would be the outcome \<open>Inl\<close>.
\<close>

datatype loop_state = Exited | Waiting

fun monitor_loop :: "iteration_answers list \<Rightarrow> loop_state io" where
  "monitor_loop [] = (\<lambda>s. (Inr (if isRunning s then Waiting else Exited), s, []))"
| "monitor_loop (answers # rest) =
     (\<lambda>s. if isRunning s
          then io_bind (iteration answers) (\<lambda>_.
               io_bind (if stop_called answers then host_call stop else io_return ()) (\<lambda>_.
               monitor_loop rest)) s
          else (Inr Exited, s, []))"

definition monitorAndSwap :: "iteration_answers list \<Rightarrow> loop_state io" where
  "monitorAndSwap script =
     io_bind (log_message StartingPriceMonitoring) (\<lambda>_. monitor_loop script)"

text \<open>
  \<open>start()\<close>. The promise of \<open>monitorAndSwap()\<close> is not awaited: whatever the loop ends
  with is dropped. The model runs the loop it launches in place, against \<open>script\<close>. When
  the \<open>log\<close> before the launch throws, \<open>start\<close> throws and nothing is launched.
\<close>

definition start :: "iteration_answers list \<Rightarrow> unit io" where
  "start script =
     (\<lambda>s. if isRunning s then log_message BotAlreadyRunning s
          else io_bind (log_message StartingBot) (\<lambda>_.
               (\<lambda>s1. case monitorAndSwap script s1 of (_, s2, cs) \<Rightarrow> (Inr (), s2, cs)))
                 (s\<lparr>isRunning := True\<rparr>))"

text \<open>\<open>getStatus()\<close>.\<close>

record status =
  status_isRunning :: bool
  status_walletAddress :: string
  status_tokenAddress :: string
  status_chainId :: nat
  logsCount :: nat

definition getStatus :: "world \<Rightarrow> status" where
  "getStatus s =
     \<lparr>status_isRunning = isRunning s,
      status_walletAddress = walletAddress s,
      status_tokenAddress = tokenAddress s,
      status_chainId = chainId s,
      logsCount = length (logs s)\<rparr>"

text \<open>
  The constructor: the object after \<open>new OKXAutoSwapBot(config)\<close>, where \<open>address\<close> is the
  address of the wallet made from \<open>config.privateKey\<close>.
\<close>

definition new_bot :: "config \<Rightarrow> string \<Rightarrow> bot" where
  "new_bot cfg address =
     \<lparr>config = cfg,
      walletAddress = address,
      tokenAddress = ''0x077574441c4f8763a37a2cfee2ecb444aa60a15e'',
      chainId = 42161,
      isRunning = False,
      logs = [BotInitialized]\<rparr>"

text \<open>
  The configuration example of the source: thresholds 0.001 and 0.01, 0.01 ETH per buy
  (\<open>10 ^ 16\<close> wei), 100 percent per sell, slippage 0.5, an interval of 30000 ms.
\<close>

definition example_config :: config where
  "example_config =
     \<lparr>conditions = Some (rules (Finite (1 / 1000)) (Finite (1 / 100))),
      swapAmountWei = Inr 10000000000000000,
      sellPercentage = Some (Finite 100),
      slippage = Some (Finite (1 / 2)),
      checkInterval = Some (Finite 30000)\<rparr>"

text \<open>
  Inputs for the examples: a bot made from the example configuration, on a file system
  that accepts every write; the same state on a full disk, where every write is refused;
  and the answers of an iteration during which the network is down, so that every
  collaborator fails.
\<close>

definition on_disk :: "bot \<Rightarrow> (message list \<Rightarrow> error option) \<Rightarrow> world" where
  "on_disk b d =
     \<lparr>config = config b, walletAddress = walletAddress b, tokenAddress = tokenAddress b,
      chainId = chainId b, isRunning = isRunning b, logs = logs b, disk = d\<rparr>"

definition example_bot :: world where
  "example_bot =
     on_disk (new_bot example_config ''0x00000000000000000000000000000000000000aa'')
       (\<lambda>buffer. None)"

definition disk_full :: "world \<Rightarrow> world" where
  "disk_full s = s\<lparr>disk := (\<lambda>buffer. Some (Error ''ENOSPC''))\<rparr>"

definition network_down :: iteration_answers where
  "network_down =
     \<lparr>price_response = Inl (Error ''timeout''),
      eth_ledger =
        \<lparr>native_balance = Inl (Error ''timeout''), token_balance = Inl (Error ''timeout''),
         token_decimals = Inl (Error ''timeout'')\<rparr>,
      token_ledger =
        \<lparr>native_balance = Inl (Error ''timeout''), token_balance = Inl (Error ''timeout''),
         token_decimals = Inl (Error ''timeout'')\<rparr>,
      quote_response = Inl (Error ''timeout''),
      swap_answers =
        \<lparr>swap_response = Inl (Error ''timeout''), send_result = Inl (Error ''timeout''),
         wait_result = Inl (Error ''timeout'')\<rparr>,
      stop_called = False\<rparr>"

text \<open>
  A running bot whose configuration has no \<open>conditions\<close>, and the answers of an iteration
  in which only the price request succeeds, with the price 1: \<open>checkPriceConditions\<close>
  throws in the body of the loop.
\<close>

definition unconditioned_bot :: world where
  "unconditioned_bot =
     example_bot\<lparr>config := example_config\<lparr>conditions := None\<rparr>, isRunning := True\<rparr>"

definition price_only :: iteration_answers where
  "price_only = network_down\<lparr>price_response := Inr (''0'', Some \<lparr>price = Finite 1\<rparr>)\<rparr>"

text \<open>
  A method that leaves every field of the bot as it was, but for entries appended to the
  log buffer.
\<close>

definition appends :: "'a io \<Rightarrow> bool" where
  "appends m = (\<forall>s. \<exists>ms. state_of (m s) = s\<lparr>logs := logs s @ ms\<rparr>)"

subsection \<open>Operations on the bot\<close>

text \<open>
  The operations of the bot, each with the answers of the collaborators it calls, and
  the state an operation leaves.
\<close>

datatype operation =
    Start "iteration_answers list"
  | Stop
  | GetStatus
  | MonitorAndSwap "iteration_answers list"
  | Iteration iteration_answers
  | GetTokenPrice "tokenData http" string
  | GetSwapQuote "string http" string string int
  | ExecuteSwap swap_answers swapData
  | CheckPriceConditions number
  | GetWalletBalance ledger string

fun perform :: "operation \<Rightarrow> world \<Rightarrow> world" where
  "perform (Start script) s = state_of (start script s)"
| "perform Stop s = state_of (stop s)"
| "perform GetStatus s = s"
| "perform (MonitorAndSwap script) s = state_of (monitorAndSwap script s)"
| "perform (Iteration answers) s = state_of (iteration answers s)"
| "perform (GetTokenPrice answer a) s = state_of (getTokenPrice answer a s)"
| "perform (GetSwapQuote answer f t n) s = state_of (getSwapQuote answer f t n s)"
| "perform (ExecuteSwap answers swap) s = state_of (executeSwap answers swap s)"
| "perform (CheckPriceConditions p) s = s"
| "perform (GetWalletBalance answers a) s = state_of (getWalletBalance answers a s)"

fun perform_all :: "operation list \<Rightarrow> world \<Rightarrow> world" where
  "perform_all [] s = s"
| "perform_all (x # xs) s = perform_all xs (perform x s)"

section \<open>The effect combinators\<close>

lemma projections [simp]:
  "outcome_of (r, s, cs) = r" "state_of (r, s, cs) = s" "calls_of (r, s, cs) = cs"
  by (simp_all add: outcome_of_def state_of_def calls_of_def)

lemma triple_eq: "r = (outcome_of r, state_of r, calls_of r)"
  by (simp add: outcome_of_def state_of_def calls_of_def)

lemma return_apply: "io_return x s = (Inr x, s, [])"
  by (simp add: io_return_def)

lemma bind_return: "io_bind (io_return x) f s = f x s"
  by (simp add: io_bind_def io_return_def split: prod.splits)

lemma bind_self: "io_bind io_self f s = f s s"
  by (simp add: io_bind_def io_self_def split: prod.splits)

lemma saveLogs_logs [simp]: "saveLogs (s\<lparr>logs := ms\<rparr>) buffer = saveLogs s buffer"
  by (simp add: saveLogs_def)

lemma saveLogs_accepted: "disk s buffer = None \<Longrightarrow> saveLogs s buffer = Inr ()"
  by (simp add: saveLogs_def)

lemma saveLogs_refused: "saveLogs s buffer = Inl x \<longleftrightarrow> disk s buffer = Some x"
  by (simp add: saveLogs_def split: option.splits)

lemma log_apply:
  "log_message m s = (saveLogs s (logs s @ [m]), s\<lparr>logs := logs s @ [m]\<rparr>, [])"
  by (simp add: log_message_def)

lemma bind_log:
  "io_bind (log_message m) f s =
     (case saveLogs s (logs s @ [m]) of
        Inl e \<Rightarrow> (Inl e, s\<lparr>logs := logs s @ [m]\<rparr>, [])
      | Inr u \<Rightarrow> f () (s\<lparr>logs := logs s @ [m]\<rparr>))"
  by (simp add: io_bind_def log_message_def split: prod.splits sum.splits)

lemma bind_lift:
  "io_bind (io_lift a) f s = (case a of Inl e \<Rightarrow> (Inl e, s, []) | Inr x \<Rightarrow> f x s)"
  by (simp add: io_bind_def io_lift_def split: prod.splits sum.splits)

lemma bind_await:
  "io_bind (await c a) f s =
     (case a of
        Inl e \<Rightarrow> (Inl e, s, [c])
      | Inr x \<Rightarrow> (outcome_of (f x s), state_of (f x s), c # calls_of (f x s)))"
  by (simp add: io_bind_def await_def outcome_of_def state_of_def calls_of_def
      split: prod.splits sum.splits)

lemma bind_request:
  "io_bind (await c answer) (\<lambda>response. io_bind (io_lift (payload failure response)) f) s =
     (case request_result failure answer of
        Inl e \<Rightarrow> (Inl e, s, [c])
      | Inr d \<Rightarrow> (outcome_of (f d s), state_of (f d s), c # calls_of (f d s)))"
  by (simp add: bind_await bind_lift request_result_def outcome_of_def state_of_def calls_of_def
      split: sum.splits)

lemmas io_simps = bind_return bind_self bind_log bind_lift bind_await return_apply

text \<open>The three components of a sequence and of a \<open>try\<close> block.\<close>

lemma outcome_bind:
  "outcome_of (io_bind m f s) =
     (case outcome_of (m s) of Inl e \<Rightarrow> Inl e | Inr x \<Rightarrow> outcome_of (f x (state_of (m s))))"
  by (simp add: io_bind_def outcome_of_def state_of_def split: prod.splits sum.splits)

lemma state_bind:
  "state_of (io_bind m f s) =
     (case outcome_of (m s) of Inl e \<Rightarrow> state_of (m s) | Inr x \<Rightarrow> state_of (f x (state_of (m s))))"
  by (simp add: io_bind_def outcome_of_def state_of_def split: prod.splits sum.splits)

lemma calls_bind:
  "calls_of (io_bind m f s) =
     calls_of (m s) @
     (case outcome_of (m s) of Inl e \<Rightarrow> [] | Inr x \<Rightarrow> calls_of (f x (state_of (m s))))"
  by (simp add: io_bind_def outcome_of_def state_of_def calls_of_def split: prod.splits sum.splits)

lemma outcome_try_catch:
  "outcome_of (try_catch m h s) =
     (case outcome_of (m s) of Inl e \<Rightarrow> outcome_of (h e (state_of (m s))) | Inr x \<Rightarrow> Inr x)"
  by (simp add: try_catch_def outcome_of_def state_of_def split: prod.splits sum.splits)

lemma state_try_catch:
  "state_of (try_catch m h s) =
     (case outcome_of (m s) of Inl e \<Rightarrow> state_of (h e (state_of (m s))) | Inr x \<Rightarrow> state_of (m s))"
  by (simp add: try_catch_def outcome_of_def state_of_def split: prod.splits sum.splits)

lemma calls_try_catch:
  "calls_of (try_catch m h s) =
     calls_of (m s) @
     (case outcome_of (m s) of Inl e \<Rightarrow> calls_of (h e (state_of (m s))) | Inr x \<Rightarrow> [])"
  by (simp add: try_catch_def outcome_of_def state_of_def calls_of_def split: prod.splits sum.splits)

text \<open>Methods that only append to the log buffer.\<close>

lemma appendsD: "appends m \<Longrightarrow> \<exists>ms. state_of (m s) = s\<lparr>logs := logs s @ ms\<rparr>"
  by (simp add: appends_def)

lemma appends_disk: "appends m \<Longrightarrow> disk (state_of (m s)) = disk s"
  using appendsD [of m s] by auto

lemma appends_saveLogs:
  "appends m \<Longrightarrow> saveLogs (state_of (m s)) buffer = saveLogs s buffer"
  by (simp add: saveLogs_def appends_disk)

lemma appends_nothing: "\<exists>ms. s = s\<lparr>logs := logs s @ ms\<rparr>"
  by (rule exI [of _ "[]"]) simp

lemma appends_return: "appends (io_return x)"
  by (simp add: appends_def io_return_def appends_nothing)

lemma appends_lift: "appends (io_lift a)"
  by (simp add: appends_def io_lift_def appends_nothing)

lemma appends_self: "appends io_self"
  by (simp add: appends_def io_self_def appends_nothing)

lemma appends_await: "appends (await c a)"
  by (simp add: appends_def await_def appends_nothing)

lemma appends_sleep: "appends (sleep ms)"
  by (simp add: sleep_def appends_await)

lemma appends_log: "appends (log_message m)"
  unfolding appends_def log_message_def by (intro allI exI [of _ "[m]"]) simp

lemma appends_bind:
  assumes "appends m" and "\<And>x. appends (f x)"
  shows "appends (io_bind m f)"
  unfolding appends_def
proof
  fix s
  obtain ms where m: "state_of (m s) = s\<lparr>logs := logs s @ ms\<rparr>"
    using appendsD [OF assms(1)] by blast
  show "\<exists>ms. state_of (io_bind m f s) = s\<lparr>logs := logs s @ ms\<rparr>"
  proof (cases "outcome_of (m s)")
    case (Inl e)
    then show ?thesis using m by (auto simp: state_bind)
  next
    case (Inr x)
    obtain ms' where "state_of (f x (state_of (m s))) =
        (state_of (m s))\<lparr>logs := logs (state_of (m s)) @ ms'\<rparr>"
      using appendsD [OF assms(2)] by blast
    then have "state_of (io_bind m f s) = s\<lparr>logs := logs s @ (ms @ ms')\<rparr>"
      using Inr m by (simp add: state_bind)
    then show ?thesis by blast
  qed
qed

lemma appends_try_catch:
  assumes "appends m" and "\<And>e. appends (h e)"
  shows "appends (try_catch m h)"
  unfolding appends_def
proof
  fix s
  obtain ms where m: "state_of (m s) = s\<lparr>logs := logs s @ ms\<rparr>"
    using appendsD [OF assms(1)] by blast
  show "\<exists>ms. state_of (try_catch m h s) = s\<lparr>logs := logs s @ ms\<rparr>"
  proof (cases "outcome_of (m s)")
    case (Inr x)
    then show ?thesis using m by (auto simp: state_try_catch)
  next
    case (Inl e)
    obtain ms' where "state_of (h e (state_of (m s))) =
        (state_of (m s))\<lparr>logs := logs (state_of (m s)) @ ms'\<rparr>"
      using appendsD [OF assms(2)] by blast
    then have "state_of (try_catch m h s) = s\<lparr>logs := logs s @ (ms @ ms')\<rparr>"
      using Inl m by (simp add: state_try_catch)
    then show ?thesis by blast
  qed
qed

lemmas appends_intros =
  appends_bind appends_try_catch appends_return appends_lift appends_self appends_await
  appends_sleep appends_log

lemma appends_getTokenPrice: "appends (getTokenPrice answer a)"
  unfolding getTokenPrice_def by (intro appends_intros)

lemma appends_getSwapQuote: "appends (getSwapQuote answer f t n)"
  unfolding getSwapQuote_def by (intro appends_intros)

lemma appends_executeSwap: "appends (executeSwap answers swap)"
  unfolding executeSwap_def by (intro appends_intros)

lemma appends_getWalletBalance: "appends (getWalletBalance answers a)"
  unfolding getWalletBalance_def by (auto intro!: appends_intros)

lemma appends_quote_and_execute: "appends (quote_and_execute answers f t n m)"
  unfolding quote_and_execute_def
  by (intro appends_bind appends_getSwapQuote)
     (auto intro!: appends_intros appends_executeSwap split: option.splits)

lemma appends_buy_branch: "appends (buy_branch answers)"
  unfolding buy_branch_def by (intro appends_intros appends_quote_and_execute)

lemma appends_sell_branch: "appends (sell_branch answers tokenBalance)"
  unfolding sell_branch_def by (intro appends_intros appends_quote_and_execute)

lemma appends_act_on: "appends (act_on answers c)"
  unfolding act_on_def
  by (intro appends_bind appends_self appends_log appends_getWalletBalance appends_return)
     (auto intro!: appends_buy_branch appends_sell_branch split: action.splits)

lemma appends_loop_body: "appends (loop_body answers)"
  unfolding loop_body_def
  by (intro appends_bind appends_self appends_getTokenPrice)
     (auto intro!: appends_intros appends_act_on split: option.splits)

lemma appends_iteration: "appends (iteration answers)"
  unfolding iteration_def by (intro appends_intros appends_loop_body)

section \<open>Condition evaluation: the thresholds\<close>

lemma num_lt_le_exclusive: "num_lt b a \<Longrightarrow> num_le p b \<Longrightarrow> \<not> num_le a p"
  by (cases p; cases b; cases a; simp)

text \<open>
  Claim C1, as the code has it. With rules \<open>{buyBelow: b, sellAbove: a}\<close> whose
  thresholds are truthy (neither 0 nor NaN) and \<open>b < a\<close>, \<open>checkPriceConditions(p)\<close>
  returns a buy intent exactly when \<open>p <= b\<close>, a sell intent exactly when \<open>p >= a\<close>, and
  \<open>null\<close> when neither holds. With a truthy \<open>b\<close> and misconfigured rules \<open>b >= a\<close>, a
  price that satisfies both comparisons yields the buy intent: buy is checked first.
\<close>

theorem checkPriceConditions_thresholds:
  assumes "conditions cfg = Some (rules b a)" and "truthy b"
  shows "(truthy a \<and> num_lt b a \<longrightarrow>
            ((action_of (checkPriceConditions cfg p) = Some Buy) = num_le p b) \<and>
            ((action_of (checkPriceConditions cfg p) = Some Sell) = num_ge p a) \<and>
            (\<not> num_le p b \<and> \<not> num_ge p a \<longrightarrow> checkPriceConditions cfg p = Inr None)) \<and>
         (num_ge b a \<and> num_le p b \<and> num_ge p a \<longrightarrow>
            checkPriceConditions cfg p = Inr (Some \<lparr>action = Buy, reason = PriceBelow b\<rparr>))"
  using assms num_lt_le_exclusive [of b a p]
  by (auto simp: checkPriceConditions_def rules_def action_of_def num_ge_def)

text \<open>Thresholds 1 and 2: the price 0.5 buys, the price 3 sells, the price 1.5 does neither.\<close>

theorem checkPriceConditions_thresholds_witness:
  "conditions (example_config\<lparr>conditions := Some (rules (Finite 1) (Finite 2))\<rparr>) =
     Some (rules (Finite 1) (Finite 2)) \<and>
   truthy (Finite 1) \<and> truthy (Finite 2) \<and> num_lt (Finite 1) (Finite 2) \<and>
   num_le (Finite (1 / 2)) (Finite 1) \<and>
   action_of (checkPriceConditions
     (example_config\<lparr>conditions := Some (rules (Finite 1) (Finite 2))\<rparr>) (Finite (1 / 2))) =
     Some Buy"
  using checkPriceConditions_thresholds
    [of "example_config\<lparr>conditions := Some (rules (Finite 1) (Finite 2))\<rparr>"
        "Finite 1" "Finite 2" "Finite (1 / 2)"]
  by simp

text \<open>
  The claim as stated fails for a threshold of 0: with \<open>b = 0 < a = 1\<close> the price 0
  satisfies \<open>p <= b\<close>, and the call returns \<open>null\<close>.
\<close>

theorem checkPriceConditions_zero_threshold:
  "num_lt (Finite 0) (Finite 1) \<and> num_le (Finite 0) (Finite 0) \<and>
   conditions (example_config\<lparr>conditions := Some (rules (Finite 0) (Finite 1))\<rparr>) =
     Some (rules (Finite 0) (Finite 1)) \<and>
   checkPriceConditions
     (example_config\<lparr>conditions := Some (rules (Finite 0) (Finite 1))\<rparr>) (Finite 0) = Inr None"
  by (simp add: checkPriceConditions_def rules_def num_ge_def)

text \<open>
  Claim C8. A threshold that is 0 or absent never fires: when \<open>buyWhen.priceBelow\<close> is 0
  or missing, no price makes \<open>checkPriceConditions\<close> return a buy intent, and when
  \<open>sellWhen.priceAbove\<close> is 0 or missing, no price makes it return a sell intent.
\<close>

theorem falsy_threshold_never_fires:
  "((\<forall>bw. buyWhen conds = Some bw \<longrightarrow>
          priceBelow bw = None \<or> priceBelow bw = Some (Finite 0)) \<and>
    conditions cfg = Some conds
      \<longrightarrow> action_of (checkPriceConditions cfg p) \<noteq> Some Buy) \<and>
   ((\<forall>sw. sellWhen conds = Some sw \<longrightarrow>
          priceAbove sw = None \<or> priceAbove sw = Some (Finite 0)) \<and>
    conditions cfg = Some conds
      \<longrightarrow> action_of (checkPriceConditions cfg p) \<noteq> Some Sell)"
  by (auto simp: checkPriceConditions_def action_of_def split: option.splits)

text \<open>Both thresholds 0: the price -1 is below 0 and does not buy; it does not sell either.\<close>

theorem falsy_threshold_never_fires_witness:
  "num_le (Finite (- 1)) (Finite 0) \<and>
   conditions (example_config\<lparr>conditions := Some (rules (Finite 0) (Finite 0))\<rparr>) =
     Some (rules (Finite 0) (Finite 0)) \<and>
   action_of (checkPriceConditions
     (example_config\<lparr>conditions := Some (rules (Finite 0) (Finite 0))\<rparr>) (Finite (- 1))) \<noteq>
     Some Buy \<and>
   action_of (checkPriceConditions
     (example_config\<lparr>conditions := Some (rules (Finite 0) (Finite 0))\<rparr>) (Finite (- 1))) \<noteq>
     Some Sell"
  using falsy_threshold_never_fires
    [of "rules (Finite 0) (Finite 0)"
        "example_config\<lparr>conditions := Some (rules (Finite 0) (Finite 0))\<rparr>" "Finite (- 1)"]
  by (simp add: rules_def)

section \<open>Sizing a sell\<close>

lemma bn_div_nonneg: "0 \<le> a \<Longrightarrow> 0 < b \<Longrightarrow> bn_div a b = a div b"
  by (cases "a = 0") (simp_all add: bn_div_def)

lemma bn_div_full: "bn_div (a * 100) 100 = a"
proof -
  have "sgn a * \<bar>a\<bar> = a" by (simp add: mult_sgn_abs)
  moreover have "sgn (a * 100) = sgn a" by (simp add: sgn_mult)
  ultimately show ?thesis by (simp add: bn_div_def abs_mult)
qed

lemma BigNumber_from_integer:
  assumes "r \<in> \<int>" and "- MAX_SAFE < r" and "r < MAX_SAFE"
  shows "BigNumber_from (Finite r) = Inr \<lfloor>r\<rfloor>"
proof -
  have "of_int \<lfloor>r\<rfloor> = r" using assms(1) by (auto simp: Ints_def)
  then show ?thesis using assms(2,3) by simp
qed

lemma floor_percentage:
  assumes "(r::real) \<in> \<int>"
  shows "\<lfloor>of_int B * r / 100\<rfloor> = (B * \<lfloor>r\<rfloor>) div 100"
proof -
  obtain k where k: "r = of_int k" using assms by (auto simp: Ints_def)
  have "\<lfloor>(of_int (B * k) :: real) / of_int 100\<rfloor> = (B * k) div 100"
    by (rule floor_divide_of_int_eq)
  then show ?thesis using k by simp
qed

lemma sellAmount_percentage:
  assumes "0 \<le> B" and "sellPercentage cfg = Some (Finite r)"
    and "r \<in> \<int>" and "0 < r" and "r < MAX_SAFE"
  shows "sellAmount cfg B = Inr \<lfloor>of_int B * r / 100\<rfloor>"
proof -
  have pos: "0 \<le> \<lfloor>r\<rfloor>" using assms(4) by simp
  have "- MAX_SAFE < r" using assms(4) by (simp add: MAX_SAFE_def)
  then have "BigNumber_from (Finite r) = Inr \<lfloor>r\<rfloor>"
    using assms(3,5) by (rule_tac BigNumber_from_integer)
  moreover have "bn_div (B * \<lfloor>r\<rfloor>) 100 = (B * \<lfloor>r\<rfloor>) div 100"
    using assms(1) pos by (intro bn_div_nonneg) simp_all
  ultimately show ?thesis
    using assms(2,4) by (simp add: sellAmount_def floor_percentage [OF assms(3)])
qed

lemma requested_amounts_simps:
  "requested_amounts [] = []"
  "requested_amounts (c # cs) =
     (case requested_amount c of None \<Rightarrow> requested_amounts cs
      | Some n \<Rightarrow> n # requested_amounts cs)"
  "requested_amounts (cs @ cs') = requested_amounts cs @ requested_amounts cs'"
  by (auto simp: requested_amounts_def List.map_filter_def split: option.splits)

lemma getSwapQuote_eq:
  "getSwapQuote answer f t n s =
     (case request_result ''Failed to get swap quote'' answer of
        Inl e \<Rightarrow>
          (case saveLogs s (logs s @ [ErrorGettingSwapQuote e]) of
             Inl x \<Rightarrow> Inl x
           | Inr u \<Rightarrow> Inr None,
           s\<lparr>logs := logs s @ [ErrorGettingSwapQuote e]\<rparr>, [GetQuote f t n])
      | Inr d \<Rightarrow> (Inr (Some d), s, [GetQuote f t n]))"
  by (simp add: getSwapQuote_def try_catch_def bind_request io_simps split: sum.splits)

lemma getTokenPrice_eq:
  "getTokenPrice answer a s =
     (case request_result ''Failed to fetch token price'' answer of
        Inl e \<Rightarrow>
          (case saveLogs s (logs s @ [ErrorFetchingTokenPrice e]) of
             Inl x \<Rightarrow> Inl x
           | Inr u \<Rightarrow> Inr None,
           s\<lparr>logs := logs s @ [ErrorFetchingTokenPrice e]\<rparr>, [GetTokens a])
      | Inr d \<Rightarrow> (Inr (Some d), s, [GetTokens a]))"
  by (simp add: getTokenPrice_def try_catch_def bind_request io_simps split: sum.splits)

text \<open>\<open>executeSwap\<close> when the swap-build phase fails, and when it answers an empty array.\<close>

lemma executeSwap_failed:
  assumes "request_result ''Failed to execute swap'' (swap_response sa) = Inl e"
  shows "executeSwap sa swap s =
           (case saveLogs s (logs s @ [ErrorExecutingSwap e]) of
              Inl x \<Rightarrow> Inl x
            | Inr u \<Rightarrow>
                Inr \<lparr>success = False, txHash = None, receipt = None, error_message = Some e\<rparr>,
            s\<lparr>logs := logs s @ [ErrorExecutingSwap e]\<rparr>,
            [PostSwap (fromToken swap) (toToken swap) (amount swap)])"
  using assms
  by (simp add: executeSwap_def try_catch_def bind_request io_simps split: sum.splits)

lemma executeSwap_empty:
  assumes "request_result ''Failed to execute swap'' (swap_response sa) = Inr []"
  shows "executeSwap sa swap s =
           (case saveLogs s (logs s @ [ErrorExecutingSwap TypeError]) of
              Inl x \<Rightarrow> Inl x
            | Inr u \<Rightarrow>
                Inr \<lparr>success = False, txHash = None, receipt = None,
                     error_message = Some TypeError\<rparr>,
            s\<lparr>logs := logs s @ [ErrorExecutingSwap TypeError]\<rparr>,
            [PostSwap (fromToken swap) (toToken swap) (amount swap)])"
  using assms
  by (simp add: executeSwap_def try_catch_def bind_request io_simps split: sum.splits)

text \<open>The calls of \<open>executeSwap\<close>: the swap-build request, then at most a submission and a wait.\<close>

lemma executeSwap_calls:
  "\<exists>cs. calls_of (executeSwap sa swap s) =
          PostSwap (fromToken swap) (toToken swap) (amount swap) # cs \<and>
        requested_amounts cs = [] \<and>
        ((\<exists>c \<in> set cs. is_submission c) \<longrightarrow>
           (\<exists>txData rest.
              request_result ''Failed to execute swap'' (swap_response sa) = Inr (txData # rest)))"
  by (simp add: executeSwap_def try_catch_def bind_request io_simps requested_amounts_simps
      split: sum.splits list.splits)

lemma executeSwap_amounts:
  "requested_amounts (calls_of (executeSwap sa swap s)) = [amount swap]"
  using executeSwap_calls [of sa swap s] by (auto simp: requested_amounts_simps)

lemma quote_and_execute_calls:
  "calls_of (quote_and_execute answers f t n m s) =
     GetQuote f t n #
     (case request_result ''Failed to get swap quote'' (quote_response answers) of
        Inl e \<Rightarrow> []
      | Inr q \<Rightarrow>
          calls_of (executeSwap (swap_answers answers)
            \<lparr>fromToken = f, toToken = t, amount = n\<rparr> s))"
  by (simp add: quote_and_execute_def calls_bind outcome_bind getSwapQuote_eq return_apply
      log_apply split: sum.splits)

lemma quote_and_execute_amounts:
  "set (requested_amounts (calls_of (quote_and_execute answers f t n m s))) = {n}"
  by (simp add: quote_and_execute_calls requested_amounts_simps executeSwap_amounts
      split: sum.splits)

lemma sell_branch_amounts:
  "sellSizing (config s) tokenBalance = Inr n \<Longrightarrow>
   set (requested_amounts (calls_of (sell_branch answers tokenBalance s))) = {n}"
  by (simp add: sell_branch_def bind_self bind_lift quote_and_execute_amounts)

text \<open>
  Claim C2, as the code has it. For a token balance of \<open>B >= 0\<close> smallest units and a
  configured sell percentage \<open>s\<close> that is a positive integer below \<open>MAX_SAFE\<close>, the amount
  the engine passes to the quote request, and to the swap-build request when it makes
  one, is \<open>floor(B * s / 100)\<close>.
\<close>

theorem sell_amount_passed:
  assumes "parseUnits tokenBalance 18 = Inr B" and "0 \<le> B"
    and "sellPercentage (config s) = Some (Finite r)"
    and "r \<in> \<int>" and "0 < r" and "r < MAX_SAFE"
  shows "set (requested_amounts (calls_of (sell_branch answers tokenBalance s))) =
           {\<lfloor>of_int B * r / 100\<rfloor>}"
proof -
  have "sellSizing (config s) tokenBalance = Inr \<lfloor>of_int B * r / 100\<rfloor>"
    using assms by (simp add: sellSizing_def sellAmount_percentage)
  then show ?thesis by (rule sell_branch_amounts)
qed

text \<open>A balance of 1000 units and 50 percent: the amount requested is 500.\<close>

theorem sell_amount_passed_witness:
  "parseUnits \<lparr>units = 1000, scale = 18\<rparr> 18 = Inr 1000 \<and> (0::int) \<le> 1000 \<and>
   sellPercentage (config (example_bot\<lparr>config := example_config\<lparr>sellPercentage := Some (Finite 50)\<rparr>\<rparr>)) =
     Some (Finite 50) \<and>
   (50::real) \<in> \<int> \<and> (0::real) < 50 \<and> 50 < MAX_SAFE \<and>
   set (requested_amounts (calls_of (sell_branch network_down \<lparr>units = 1000, scale = 18\<rparr>
     (example_bot\<lparr>config := example_config\<lparr>sellPercentage := Some (Finite 50)\<rparr>\<rparr>)))) = {500}"
proof -
  have p: "parseUnits \<lparr>units = 1000, scale = 18\<rparr> 18 = Inr 1000"
    by (simp add: parseUnits_def)
  have m: "(50::real) < MAX_SAFE" by (simp add: MAX_SAFE_def)
  have c: "sellPercentage (config (example_bot\<lparr>config := example_config\<lparr>sellPercentage := Some (Finite 50)\<rparr>\<rparr>)) =
     Some (Finite 50)" by simp
  show ?thesis
    using sell_amount_passed [OF p _ c _ _ m, of network_down] p m by simp
qed

text \<open>
  The claim as stated fails for the percentage 0: of a balance of 1000 units the engine
  requests 1000, and \<open>floor(1000 * 0 / 100)\<close> is 0.
\<close>

theorem sell_amount_zero_percent:
  "sellPercentage (config (example_bot\<lparr>config := example_config\<lparr>sellPercentage := Some (Finite 0)\<rparr>\<rparr>)) =
     Some (Finite 0) \<and>
   parseUnits \<lparr>units = 1000, scale = 18\<rparr> 18 = Inr 1000 \<and>
   set (requested_amounts (calls_of (sell_branch network_down \<lparr>units = 1000, scale = 18\<rparr>
     (example_bot\<lparr>config := example_config\<lparr>sellPercentage := Some (Finite 0)\<rparr>\<rparr>)))) = {1000} \<and>
   \<lfloor>of_int 1000 * (0::real) / 100\<rfloor> = (0::int)"
proof -
  have "sellSizing (config (example_bot\<lparr>config := example_config\<lparr>sellPercentage := Some (Finite 0)\<rparr>\<rparr>))
      \<lparr>units = 1000, scale = 18\<rparr> = Inr 1000"
    by (simp add: sellSizing_def sellAmount_def parseUnits_def MAX_SAFE_def bn_div_def)
  then show ?thesis
    by (simp add: sell_branch_amounts parseUnits_def)
qed

text \<open>
  Claim C9. When the configured sell percentage is falsy (0, NaN or absent), the sized
  sell amount is the whole token balance in smallest units, and that is the amount the
  engine requests.
\<close>

theorem falsy_percentage_sells_all:
  assumes "parseUnits tokenBalance 18 = Inr B"
    and "sellPercentage (config s) = None \<or>
         (\<exists>x. sellPercentage (config s) = Some x \<and> \<not> truthy x)"
  shows "sellSizing (config s) tokenBalance = Inr B \<and>
         set (requested_amounts (calls_of (sell_branch answers tokenBalance s))) = {B}"
proof -
  have "or_default (sellPercentage (config s)) (Finite 100) = Finite 100"
    using assms(2) by auto
  then have "sellSizing (config s) tokenBalance = Inr B"
    using assms(1) by (simp add: sellSizing_def sellAmount_def MAX_SAFE_def bn_div_full)
  then show ?thesis by (simp add: sell_branch_amounts)
qed

theorem falsy_percentage_sells_all_witness:
  "parseUnits \<lparr>units = 1000, scale = 18\<rparr> 18 = Inr 1000 \<and>
   sellPercentage (config (example_bot\<lparr>config := example_config\<lparr>sellPercentage := Some (Finite 0)\<rparr>\<rparr>)) =
     Some (Finite 0) \<and> \<not> truthy (Finite 0) \<and>
   sellSizing (config (example_bot\<lparr>config := example_config\<lparr>sellPercentage := Some (Finite 0)\<rparr>\<rparr>))
     \<lparr>units = 1000, scale = 18\<rparr> = Inr 1000"
proof -
  have p: "parseUnits \<lparr>units = 1000, scale = 18\<rparr> 18 = Inr 1000"
    by (simp add: parseUnits_def)
  show ?thesis
    using falsy_percentage_sells_all [OF p, of "example_bot\<lparr>config := example_config\<lparr>sellPercentage := Some (Finite 0)\<rparr>\<rparr>" network_down] p
    by simp
qed

section \<open>Swaps: a failed phase submits nothing\<close>

text \<open>The failures of a request, in the words of the interface.\<close>

lemma request_result_failure:
  "request_result failure answer = Inl cause \<longleftrightarrow>
     answer = Inl cause \<or>
     (\<exists>code d. answer = Inr (code, d) \<and> (code \<noteq> ''0'' \<or> d = None) \<and> cause = Error failure)"
  by (auto simp: request_result_def payload_def split: sum.splits option.splits if_splits)

lemma quote_and_execute_failed:
  assumes "request_result ''Failed to get swap quote'' (quote_response answers) = Inl e"
  shows "quote_and_execute answers f t n m s =
           (case saveLogs s (logs s @ [ErrorGettingSwapQuote e]) of
              Inl x \<Rightarrow> Inl x
            | Inr u \<Rightarrow> Inr None,
            s\<lparr>logs := logs s @ [ErrorGettingSwapQuote e]\<rparr>, [GetQuote f t n])"
  using assms
  by (simp add: quote_and_execute_def io_bind_def getSwapQuote_eq return_apply split: sum.splits)

text \<open>
  Claim C3, as the code has it. If the quote phase fails (no route, a non-success status
  code or a thrown error), the engine logs the cause, does not call \<open>executeSwap\<close>, and
  makes no call but the quote request: nothing is submitted, and the attempt ends
  without an outcome object (or, when the write of the log entry is refused, with that
  error). If the swap-build phase fails, or answers an empty array, \<open>executeSwap\<close> makes
  no call but the swap-build request, logs the cause and returns
  \<open>{success: false, error: cause}\<close> (or, when the write of the log entry is refused, throws
  that error). A transaction is submitted only after a successful quote and a successful
  swap-build response with a transaction template.
\<close>

theorem failed_phase_submits_nothing:
  "(request_result ''Failed to get swap quote'' (quote_response answers) = Inl cause \<longrightarrow>
      quote_and_execute answers f t n m s =
        (case saveLogs s (logs s @ [ErrorGettingSwapQuote cause]) of
           Inl x \<Rightarrow> Inl x
         | Inr u \<Rightarrow> Inr None,
         s\<lparr>logs := logs s @ [ErrorGettingSwapQuote cause]\<rparr>, [GetQuote f t n])) \<and>
   (request_result ''Failed to execute swap'' (swap_response sa) = Inl cause \<longrightarrow>
      executeSwap sa swap s =
        (case saveLogs s (logs s @ [ErrorExecutingSwap cause]) of
           Inl x \<Rightarrow> Inl x
         | Inr u \<Rightarrow>
             Inr \<lparr>success = False, txHash = None, receipt = None, error_message = Some cause\<rparr>,
         s\<lparr>logs := logs s @ [ErrorExecutingSwap cause]\<rparr>,
         [PostSwap (fromToken swap) (toToken swap) (amount swap)])) \<and>
   (request_result ''Failed to execute swap'' (swap_response sa) = Inr [] \<longrightarrow>
      executeSwap sa swap s =
        (case saveLogs s (logs s @ [ErrorExecutingSwap TypeError]) of
           Inl x \<Rightarrow> Inl x
         | Inr u \<Rightarrow>
             Inr \<lparr>success = False, txHash = None, receipt = None,
                  error_message = Some TypeError\<rparr>,
         s\<lparr>logs := logs s @ [ErrorExecutingSwap TypeError]\<rparr>,
         [PostSwap (fromToken swap) (toToken swap) (amount swap)])) \<and>
   ((\<exists>c \<in> set (calls_of (quote_and_execute answers f t n m s)). is_submission c) \<longrightarrow>
      (\<exists>q. request_result ''Failed to get swap quote'' (quote_response answers) = Inr q) \<and>
      (\<exists>txData rest.
         request_result ''Failed to execute swap'' (swap_response (swap_answers answers)) =
           Inr (txData # rest)))"
proof (intro conjI impI)
  assume "request_result ''Failed to get swap quote'' (quote_response answers) = Inl cause"
  then show "quote_and_execute answers f t n m s =
      (case saveLogs s (logs s @ [ErrorGettingSwapQuote cause]) of
         Inl x \<Rightarrow> Inl x
       | Inr u \<Rightarrow> Inr None,
       s\<lparr>logs := logs s @ [ErrorGettingSwapQuote cause]\<rparr>, [GetQuote f t n])"
    by (rule quote_and_execute_failed)
next
  assume "request_result ''Failed to execute swap'' (swap_response sa) = Inl cause"
  then show "executeSwap sa swap s =
      (case saveLogs s (logs s @ [ErrorExecutingSwap cause]) of
         Inl x \<Rightarrow> Inl x
       | Inr u \<Rightarrow>
           Inr \<lparr>success = False, txHash = None, receipt = None, error_message = Some cause\<rparr>,
       s\<lparr>logs := logs s @ [ErrorExecutingSwap cause]\<rparr>,
       [PostSwap (fromToken swap) (toToken swap) (amount swap)])"
    by (rule executeSwap_failed)
next
  assume "request_result ''Failed to execute swap'' (swap_response sa) = Inr []"
  then show "executeSwap sa swap s =
      (case saveLogs s (logs s @ [ErrorExecutingSwap TypeError]) of
         Inl x \<Rightarrow> Inl x
       | Inr u \<Rightarrow>
           Inr \<lparr>success = False, txHash = None, receipt = None,
                error_message = Some TypeError\<rparr>,
       s\<lparr>logs := logs s @ [ErrorExecutingSwap TypeError]\<rparr>,
       [PostSwap (fromToken swap) (toToken swap) (amount swap)])"
    by (rule executeSwap_empty)
next
  assume sub: "\<exists>c \<in> set (calls_of (quote_and_execute answers f t n m s)). is_submission c"
  then show q: "\<exists>q. request_result ''Failed to get swap quote'' (quote_response answers) = Inr q"
    by (cases "request_result ''Failed to get swap quote'' (quote_response answers)")
       (simp_all add: quote_and_execute_calls)
  obtain cs where cs:
    "calls_of (executeSwap (swap_answers answers) \<lparr>fromToken = f, toToken = t, amount = n\<rparr> s) =
       PostSwap f t n # cs"
    "(\<exists>c \<in> set cs. is_submission c) \<longrightarrow>
       (\<exists>txData rest.
          request_result ''Failed to execute swap'' (swap_response (swap_answers answers)) =
            Inr (txData # rest))"
    using executeSwap_calls
      [of "swap_answers answers" "\<lparr>fromToken = f, toToken = t, amount = n\<rparr>" s]
    by auto
  from sub q cs show
    "\<exists>txData rest.
       request_result ''Failed to execute swap'' (swap_response (swap_answers answers)) =
         Inr (txData # rest)"
    by (auto simp: quote_and_execute_calls)
qed

text \<open>
  The network is down and the disk accepts the writes: the quote fails and the attempt
  makes the quote request only; the swap-build request fails and \<open>executeSwap\<close> returns the
  failure with its cause.
\<close>

theorem failed_phase_submits_nothing_witness:
  "request_result ''Failed to get swap quote'' (quote_response network_down) =
     Inl (Error ''timeout'') \<and>
   request_result ''Failed to execute swap'' (swap_response (swap_answers network_down)) =
     Inl (Error ''timeout'') \<and>
   calls_of (quote_and_execute network_down ''a'' ''b'' 7 BuyOrderExecuted example_bot) =
     [GetQuote ''a'' ''b'' 7] \<and>
   outcome_of (executeSwap (swap_answers network_down)
     \<lparr>fromToken = ''a'', toToken = ''b'', amount = 7\<rparr> example_bot) =
     Inr \<lparr>success = False, txHash = None, receipt = None,
          error_message = Some (Error ''timeout'')\<rparr>"
proof -
  have q: "request_result ''Failed to get swap quote'' (quote_response network_down) =
      Inl (Error ''timeout'')"
    by (simp add: request_result_def network_down_def)
  have b: "request_result ''Failed to execute swap'' (swap_response (swap_answers network_down)) =
      Inl (Error ''timeout'')"
    by (simp add: request_result_def network_down_def)
  have d: "saveLogs example_bot buffer = Inr ()" for buffer
    by (simp add: saveLogs_def example_bot_def on_disk_def)
  show ?thesis
    using failed_phase_submits_nothing
      [of network_down "Error ''timeout''" "''a''" "''b''" 7 BuyOrderExecuted example_bot
          "swap_answers network_down" "\<lparr>fromToken = ''a'', toToken = ''b'', amount = 7\<rparr>"]
      q b
    by (simp add: d)
qed

text \<open>
  The claim as stated fails twice. When the quote request fails, the engine's swap
  attempt ends without an outcome object (\<open>executeSwap\<close>, the only source of
  \<open>{success: false, error}\<close>, is not called). And when the swap-build request fails on a
  full disk, \<open>executeSwap\<close> throws the error of the log write instead of returning.
\<close>

theorem failed_quote_has_no_outcome:
  "request_result ''Failed to get swap quote'' (quote_response network_down) =
     Inl (Error ''timeout'') \<and>
   outcome_of (quote_and_execute network_down ''a'' ''b'' 7 BuyOrderExecuted example_bot) =
     Inr None \<and>
   request_result ''Failed to execute swap'' (swap_response (swap_answers network_down)) =
     Inl (Error ''timeout'') \<and>
   outcome_of (executeSwap (swap_answers network_down)
     \<lparr>fromToken = ''a'', toToken = ''b'', amount = 7\<rparr> (disk_full example_bot)) =
     Inl (Error ''ENOSPC'')"
proof -
  have q: "request_result ''Failed to get swap quote'' (quote_response network_down) =
      Inl (Error ''timeout'')"
    by (simp add: request_result_def network_down_def)
  have b: "request_result ''Failed to execute swap'' (swap_response (swap_answers network_down)) =
      Inl (Error ''timeout'')"
    by (simp add: request_result_def network_down_def)
  show ?thesis
    by (simp add: q b quote_and_execute_failed [OF q] executeSwap_failed [OF b] saveLogs_def
        example_bot_def on_disk_def disk_full_def)
qed

section \<open>Balance reads\<close>

lemma getWalletBalance_eq:
  "getWalletBalance l a s =
     (let failed = (\<lambda>e cs. (case saveLogs s (logs s @ [ErrorGettingWalletBalance e]) of
                                Inl x \<Rightarrow> Inl x
                              | Inr u \<Rightarrow> Inr zero_literal,
                             s\<lparr>logs := logs s @ [ErrorGettingWalletBalance e]\<rparr>, cs))
      in
      if a = ''ETH'' \<or> a = AddressZero
      then (case native_balance l of
              Inl e \<Rightarrow> failed e [GetBalance]
            | Inr balance \<Rightarrow> (Inr (formatEther balance), s, [GetBalance]))
      else (case token_balance l of
              Inl e \<Rightarrow> failed e [BalanceOf a]
            | Inr balance \<Rightarrow>
                (case token_decimals l of
                   Inl e \<Rightarrow> failed e [BalanceOf a, Decimals a]
                 | Inr decimals \<Rightarrow>
                     (Inr (formatUnits balance decimals), s, [BalanceOf a, Decimals a]))))"
  by (simp add: getWalletBalance_def try_catch_def io_simps Let_def split: sum.splits)

text \<open>
  Claim C6, as the code has it. For every asset identifier, when the ledger query of a
  balance read fails (the native-balance lookup, the token's balance-of, or its decimals
  call), the read logs the cause and returns the literal \<open>'0'\<close>, unless the write of that
  log entry is refused: then the read raises the error of the write. A balance read
  raises in no other case, so on a disk that accepts every write it never raises.
\<close>

theorem getWalletBalance_fails_to_zero:
  "((a = ''ETH'' \<or> a = AddressZero) \<and> native_balance l = Inl e \<longrightarrow>
      getWalletBalance l a s =
        (case saveLogs s (logs s @ [ErrorGettingWalletBalance e]) of
           Inl x \<Rightarrow> Inl x
         | Inr u \<Rightarrow> Inr zero_literal,
         s\<lparr>logs := logs s @ [ErrorGettingWalletBalance e]\<rparr>, [GetBalance])) \<and>
   (a \<noteq> ''ETH'' \<and> a \<noteq> AddressZero \<and> token_balance l = Inl e \<longrightarrow>
      getWalletBalance l a s =
        (case saveLogs s (logs s @ [ErrorGettingWalletBalance e]) of
           Inl x \<Rightarrow> Inl x
         | Inr u \<Rightarrow> Inr zero_literal,
         s\<lparr>logs := logs s @ [ErrorGettingWalletBalance e]\<rparr>, [BalanceOf a])) \<and>
   (a \<noteq> ''ETH'' \<and> a \<noteq> AddressZero \<and> token_balance l = Inr b \<and> token_decimals l = Inl e \<longrightarrow>
      getWalletBalance l a s =
        (case saveLogs s (logs s @ [ErrorGettingWalletBalance e]) of
           Inl x \<Rightarrow> Inl x
         | Inr u \<Rightarrow> Inr zero_literal,
         s\<lparr>logs := logs s @ [ErrorGettingWalletBalance e]\<rparr>, [BalanceOf a, Decimals a])) \<and>
   (outcome_of (getWalletBalance l a s) = Inl x \<longrightarrow>
      (\<exists>cause. disk s (logs s @ [ErrorGettingWalletBalance cause]) = Some x)) \<and>
   ((\<forall>buffer. disk s buffer = None) \<longrightarrow>
      (\<exists>v. outcome_of (getWalletBalance l a s) = Inr v))"
proof -
  have raised: "\<exists>cause. disk s (logs s @ [ErrorGettingWalletBalance cause]) = Some x"
    if "outcome_of (getWalletBalance l a s) = Inl x" for x
    using that
    by (auto simp: getWalletBalance_eq Let_def saveLogs_def
        split: sum.splits if_splits option.splits)
  have "\<exists>v. outcome_of (getWalletBalance l a s) = Inr v" if "\<forall>buffer. disk s buffer = None"
  proof (cases "outcome_of (getWalletBalance l a s)")
    case (Inl x)
    then show ?thesis using raised [of x] that by auto
  next
    case (Inr v)
    then show ?thesis by simp
  qed
  then show ?thesis
    using raised by (simp add: getWalletBalance_eq Let_def)
qed

text \<open>
  The network is down and the disk accepts the writes: the native balance and the token
  balance both read as \<open>'0'\<close>.
\<close>

theorem getWalletBalance_fails_to_zero_witness:
  "native_balance (eth_ledger network_down) = Inl (Error ''timeout'') \<and>
   outcome_of (getWalletBalance (eth_ledger network_down) ''ETH'' example_bot) =
     Inr zero_literal \<and>
   tokenAddress example_bot \<noteq> ''ETH'' \<and> tokenAddress example_bot \<noteq> AddressZero \<and>
   token_balance (token_ledger network_down) = Inl (Error ''timeout'') \<and>
   outcome_of (getWalletBalance (token_ledger network_down) (tokenAddress example_bot)
     example_bot) = Inr zero_literal"
proof -
  have n: "native_balance (eth_ledger network_down) = Inl (Error ''timeout'')"
    and t: "token_balance (token_ledger network_down) = Inl (Error ''timeout'')"
    by (simp_all add: network_down_def)
  have a: "tokenAddress example_bot \<noteq> ''ETH''" "tokenAddress example_bot \<noteq> AddressZero"
    by (simp_all add: example_bot_def on_disk_def new_bot_def AddressZero_def)
  have d: "saveLogs example_bot buffer = Inr ()" for buffer
    by (simp add: saveLogs_def example_bot_def on_disk_def)
  show ?thesis
    using getWalletBalance_fails_to_zero
      [of "''ETH''" "eth_ledger network_down" "Error ''timeout''" example_bot]
      getWalletBalance_fails_to_zero
      [of "tokenAddress example_bot" "token_ledger network_down" "Error ''timeout''" example_bot]
      n t a
    by (simp add: d)
qed

text \<open>
  The claim as stated fails on a full disk: the native-balance lookup fails, the handler's
  log write is refused, and the balance read raises.
\<close>

theorem getWalletBalance_raises_on_full_disk:
  "native_balance (eth_ledger network_down) = Inl (Error ''timeout'') \<and>
   outcome_of (getWalletBalance (eth_ledger network_down) ''ETH'' (disk_full example_bot)) =
     Inl (Error ''ENOSPC'')"
  by (simp add: getWalletBalance_eq Let_def network_down_def saveLogs_def disk_full_def)

section \<open>Start and stop\<close>

text \<open>
  Claim C4. \<open>start\<close> on a running engine returns before it launches anything: the run
  flag stays set, no call is made to any collaborator, and the only change to the bot is
  the entry \<open>Bot is already running\<close> at the end of the log buffer, whatever the loop would
  have been answered. What \<open>start\<close> returns is what the write of that entry answers.
\<close>

theorem start_while_running:
  assumes "isRunning s"
  shows "start script s =
           (saveLogs s (logs s @ [BotAlreadyRunning]),
            s\<lparr>logs := logs s @ [BotAlreadyRunning]\<rparr>, []) \<and>
         isRunning (state_of (start script s)) \<and>
         StartingPriceMonitoring \<notin> set (logs (state_of (start script s))) - set (logs s)"
  using assms by (simp add: start_def log_message_def)

theorem start_while_running_witness:
  "isRunning (example_bot\<lparr>isRunning := True\<rparr>) \<and>
   outcome_of (start [network_down] (example_bot\<lparr>isRunning := True\<rparr>)) = Inr () \<and>
   calls_of (start [network_down] (example_bot\<lparr>isRunning := True\<rparr>)) = [] \<and>
   isRunning (state_of (start [network_down] (example_bot\<lparr>isRunning := True\<rparr>)))"
  using start_while_running [of "example_bot\<lparr>isRunning := True\<rparr>" "[network_down]"]
  by (simp add: saveLogs_def example_bot_def on_disk_def)

text \<open>For contrast: on an engine that is not running, \<open>start\<close> launches the loop.\<close>

lemma start_launches:
  assumes "\<not> isRunning s"
    and "disk s (logs s @ [StartingBot]) = None"
    and "disk s (logs s @ [StartingBot, StartingPriceMonitoring]) = None"
  shows "start script s =
     (Inr (),
      state_of (monitor_loop script
        (s\<lparr>isRunning := True, logs := logs s @ [StartingBot, StartingPriceMonitoring]\<rparr>)),
      calls_of (monitor_loop script
        (s\<lparr>isRunning := True, logs := logs s @ [StartingBot, StartingPriceMonitoring]\<rparr>)))"
  using assms
  by (simp add: start_def monitorAndSwap_def bind_log saveLogs_def state_of_def calls_of_def
      split: prod.splits)

text \<open>
  Claim C5, as the code has it. \<open>stop\<close> on an engine that is not running leaves the run
  flag false and every field but the log buffer as it was; one entry, \<open>Bot is not
  running\<close>, is appended to the log buffer. What \<open>stop\<close> returns is what the write of that
  entry answers.
\<close>

theorem stop_while_not_running:
  assumes "\<not> isRunning s"
  shows "stop s =
           (saveLogs s (logs s @ [BotNotRunning]), s\<lparr>logs := logs s @ [BotNotRunning]\<rparr>, [])"
  using assms by (simp add: stop_def log_message_def)

theorem stop_while_not_running_witness:
  "\<not> isRunning example_bot \<and>
   stop example_bot =
     (Inr (), example_bot\<lparr>logs := [BotInitialized, BotNotRunning]\<rparr>, [])"
proof -
  have n: "\<not> isRunning example_bot" by (simp add: example_bot_def on_disk_def new_bot_def)
  show ?thesis
    using stop_while_not_running [OF n] n
    by (simp add: saveLogs_def example_bot_def on_disk_def new_bot_def)
qed

text \<open>
  The claim as stated fails: \<open>stop\<close> on a fresh bot, which is not running, changes the
  field \<open>logs\<close>, and the \<open>logsCount\<close> of \<open>getStatus\<close> goes from 1 to 2.
\<close>

theorem stop_while_not_running_logs:
  "\<not> isRunning example_bot \<and>
   state_of (stop example_bot) \<noteq> example_bot \<and>
   logsCount (getStatus example_bot) = 1 \<and>
   logsCount (getStatus (state_of (stop example_bot))) = 2"
  by (simp add: stop_def log_message_def example_bot_def on_disk_def new_bot_def getStatus_def)

section \<open>The monitoring loop\<close>

lemma sleep_apply: "sleep ms s = (Inr (), s, [Sleep ms])"
  by (simp add: sleep_def await_def)

text \<open>The handler at the loop boundary: the log entry, then the recovery sleep.\<close>

lemma recovery_apply:
  "io_bind (log_message (ErrorInMonitoringLoop e)) (\<lambda>_. sleep (Finite 5000)) s =
     (saveLogs s (logs s @ [ErrorInMonitoringLoop e]),
      s\<lparr>logs := logs s @ [ErrorInMonitoringLoop e]\<rparr>,
      case saveLogs s (logs s @ [ErrorInMonitoringLoop e]) of
        Inl x \<Rightarrow> []
      | Inr u \<Rightarrow> [Sleep (Finite 5000)])"
  by (simp add: bind_log sleep_apply split: sum.splits)

lemma iteration_outcome:
  "outcome_of (iteration answers s) =
     (case outcome_of (loop_body answers s) of
        Inl e \<Rightarrow> saveLogs s (logs (state_of (loop_body answers s)) @ [ErrorInMonitoringLoop e])
      | Inr u \<Rightarrow> Inr ())"
  by (simp add: iteration_def outcome_try_catch recovery_apply
      appends_saveLogs [OF appends_loop_body] split: sum.splits)

lemma iteration_recovers:
  assumes "outcome_of (loop_body answers s) = Inl e"
    and "disk s (logs (state_of (loop_body answers s)) @ [ErrorInMonitoringLoop e]) = None"
  shows "iteration answers s =
           (Inr (),
            (state_of (loop_body answers s))
              \<lparr>logs := logs (state_of (loop_body answers s)) @ [ErrorInMonitoringLoop e]\<rparr>,
            calls_of (loop_body answers s) @ [Sleep (Finite 5000)])"
proof -
  have "saveLogs (state_of (loop_body answers s))
      (logs (state_of (loop_body answers s)) @ [ErrorInMonitoringLoop e]) = Inr ()"
    using assms(2) by (simp add: appends_saveLogs [OF appends_loop_body] saveLogs_accepted)
  moreover have "iteration answers s =
      (outcome_of (iteration answers s), state_of (iteration answers s),
       calls_of (iteration answers s))"
    by (rule triple_eq)
  ultimately show ?thesis
    using assms(1)
    by (simp add: iteration_def outcome_try_catch state_try_catch calls_try_catch
        recovery_apply)
qed

lemma iteration_raises:
  assumes "outcome_of (iteration answers s) = Inl x"
  shows "\<exists>e. outcome_of (loop_body answers s) = Inl e \<and>
             disk s (logs (state_of (loop_body answers s)) @ [ErrorInMonitoringLoop e]) = Some x"
  using assms by (auto simp: iteration_outcome saveLogs_refused split: sum.splits)

lemma loop_body_fetches_first:
  "\<exists>cs. calls_of (loop_body answers s) = GetTokens (tokenAddress s) # cs"
  by (simp add: loop_body_def bind_self calls_bind getTokenPrice_eq split: sum.splits)

lemma iteration_fetches_first:
  "\<exists>cs. calls_of (iteration answers s) = GetTokens (tokenAddress s) # cs"
proof -
  obtain cs where "calls_of (loop_body answers s) = GetTokens (tokenAddress s) # cs"
    using loop_body_fetches_first by blast
  then show ?thesis by (simp add: iteration_def calls_try_catch)
qed

lemma iteration_keeps:
  "isRunning (state_of (iteration answers s)) = isRunning s"
  "tokenAddress (state_of (iteration answers s)) = tokenAddress s"
  "config (state_of (iteration answers s)) = config s"
  "disk (state_of (iteration answers s)) = disk s"
proof -
  obtain ms where "state_of (iteration answers s) = s\<lparr>logs := logs s @ ms\<rparr>"
    using appendsD [OF appends_iteration] by blast
  then show "isRunning (state_of (iteration answers s)) = isRunning s"
    and "tokenAddress (state_of (iteration answers s)) = tokenAddress s"
    and "config (state_of (iteration answers s)) = config s"
    and "disk (state_of (iteration answers s)) = disk s"
    by simp_all
qed

lemma stop_apply:
  "calls_of (stop s) = []" "disk (state_of (stop s)) = disk s"
  by (simp_all add: stop_def log_message_def)

text \<open>The state in which the next trip through the \<open>while\<close> starts.\<close>

lemma monitor_loop_step:
  assumes "isRunning s" and "outcome_of (iteration answers s) = Inr ()"
  shows "monitor_loop (answers # rest) s =
           (let s1 = state_of (iteration answers s);
                s2 = (if stop_called answers then state_of (stop s1) else s1);
                r = monitor_loop rest s2
            in (outcome_of r, state_of r, calls_of (iteration answers s) @ calls_of r))"
proof -
  define M where "M = io_bind (iteration answers) (\<lambda>_.
      io_bind (if stop_called answers then host_call stop else io_return ())
        (\<lambda>_. monitor_loop rest))"
  define s1 where "s1 = state_of (iteration answers s)"
  define s2 where "s2 = (if stop_called answers then state_of (stop s1) else s1)"
  have "monitor_loop (answers # rest) s = M s"
    using assms(1) by (simp add: M_def)
  also have "M s = (outcome_of (M s), state_of (M s), calls_of (M s))"
    by (rule triple_eq)
  also have "outcome_of (M s) = outcome_of (monitor_loop rest s2)"
    by (simp add: M_def s1_def s2_def outcome_bind state_bind assms(2) host_call_def
        return_apply)
  also have "state_of (M s) = state_of (monitor_loop rest s2)"
    by (simp add: M_def s1_def s2_def outcome_bind state_bind assms(2) host_call_def
        return_apply)
  also have "calls_of (M s) = calls_of (iteration answers s) @ calls_of (monitor_loop rest s2)"
    by (simp add: M_def s1_def s2_def outcome_bind state_bind calls_bind assms(2) host_call_def
        stop_apply return_apply)
  finally show ?thesis by (simp add: Let_def s1_def s2_def)
qed

lemma monitor_loop_raised:
  assumes "isRunning s" and "outcome_of (iteration answers s) = Inl x"
  shows "monitor_loop (answers # rest) s =
           (Inl x, state_of (iteration answers s), calls_of (iteration answers s))"
proof -
  define M where "M = io_bind (iteration answers) (\<lambda>_.
      io_bind (if stop_called answers then host_call stop else io_return ())
        (\<lambda>_. monitor_loop rest))"
  have "monitor_loop (answers # rest) s = M s"
    using assms(1) by (simp add: M_def)
  also have "M s = (outcome_of (M s), state_of (M s), calls_of (M s))"
    by (rule triple_eq)
  also have "outcome_of (M s) = Inl x"
    by (simp add: M_def outcome_bind assms(2))
  also have "state_of (M s) = state_of (iteration answers s)"
    by (simp add: M_def state_bind assms(2))
  also have "calls_of (M s) = calls_of (iteration answers s)"
    by (simp add: M_def calls_bind assms(2))
  finally show ?thesis .
qed

lemma monitor_loop_raises:
  "outcome_of (monitor_loop script s) = Inl x \<Longrightarrow> \<exists>buffer. disk s buffer = Some x"
proof (induction script arbitrary: s)
  case Nil
  then show ?case by simp
next
  case (Cons answers rest)
  show ?case
  proof (cases "isRunning s")
    case False
    then show ?thesis using Cons.prems by simp
  next
    case True
    show ?thesis
    proof (cases "outcome_of (iteration answers s)")
      case (Inl y)
      then have "y = x"
        using Cons.prems True by (simp add: monitor_loop_raised del: monitor_loop.simps(2))
      then show ?thesis using iteration_raises [of answers s x] Inl by blast
    next
      case (Inr u)
      define s2 where "s2 = (if stop_called answers
        then state_of (stop (state_of (iteration answers s))) else state_of (iteration answers s))"
      have "outcome_of (monitor_loop rest s2) = Inl x"
        using Cons.prems True Inr
        by (simp add: monitor_loop_step Let_def s2_def del: monitor_loop.simps(2))
      then obtain buffer where "disk s2 buffer = Some x"
        using Cons.IH by blast
      moreover have "disk s2 = disk s"
        by (simp add: s2_def stop_apply iteration_keeps)
      ultimately show ?thesis by auto
    qed
  qed
qed

lemma monitor_loop_exits_stopped:
  "outcome_of (monitor_loop script s) = Inr Exited \<Longrightarrow>
   \<not> isRunning (state_of (monitor_loop script s))"
proof (induction script arbitrary: s)
  case Nil
  then show ?case by (simp split: if_splits)
next
  case (Cons answers rest)
  show ?case
  proof (cases "isRunning s")
    case False
    then show ?thesis by simp
  next
    case True
    show ?thesis
    proof (cases "outcome_of (iteration answers s)")
      case (Inl y)
      then show ?thesis
        using Cons.prems True by (simp add: monitor_loop_raised del: monitor_loop.simps(2))
    next
      case (Inr u)
      then show ?thesis
        using Cons True by (simp add: monitor_loop_step Let_def del: monitor_loop.simps(2))
    qed
  qed
qed

lemma monitor_loop_keeps_running:
  "isRunning s \<Longrightarrow> \<forall>a \<in> set script. \<not> stop_called a \<Longrightarrow> \<forall>buffer. disk s buffer = None \<Longrightarrow>
   outcome_of (monitor_loop script s) = Inr Waiting \<and>
   isRunning (state_of (monitor_loop script s))"
proof (induction script arbitrary: s)
  case Nil
  then show ?case by simp
next
  case (Cons answers rest)
  have "outcome_of (iteration answers s) = Inr ()"
    using Cons.prems(3) by (simp add: iteration_outcome saveLogs_def split: sum.splits)
  then show ?case
    using Cons by (simp add: monitor_loop_step Let_def iteration_keeps del: monitor_loop.simps(2))
qed

text \<open>
  Claim C7, as the code has it. A failure raised in the body of an iteration is caught at
  the loop boundary and logged; when the write of that entry is accepted, the iteration
  ends in a sleep of 5000 ms and the next one starts from the price fetch. An iteration
  throws only when that write is refused, and the loop ends in an error only with the
  error of a refused write. When the loop has left the \<open>while\<close> the run flag is cleared;
  and on a disk that accepts every write, while no \<open>stop\<close> is called, the loop is still
  running after any number of iterations, whatever failed in them.
\<close>

theorem loop_survives_failures:
  "(outcome_of (loop_body answers s) = Inl e \<and>
    disk s (logs (state_of (loop_body answers s)) @ [ErrorInMonitoringLoop e]) = None \<longrightarrow>
      iteration answers s =
        (Inr (),
         (state_of (loop_body answers s))
           \<lparr>logs := logs (state_of (loop_body answers s)) @ [ErrorInMonitoringLoop e]\<rparr>,
         calls_of (loop_body answers s) @ [Sleep (Finite 5000)])) \<and>
   (outcome_of (iteration answers s) = Inl x \<longrightarrow>
      (\<exists>cause. outcome_of (loop_body answers s) = Inl cause \<and>
         disk s (logs (state_of (loop_body answers s)) @ [ErrorInMonitoringLoop cause]) =
           Some x)) \<and>
   (outcome_of (monitor_loop script s) = Inl x \<longrightarrow> (\<exists>buffer. disk s buffer = Some x)) \<and>
   (outcome_of (monitor_loop script s) = Inr Exited \<longrightarrow>
      \<not> isRunning (state_of (monitor_loop script s))) \<and>
   (isRunning s \<and> (\<forall>a \<in> set script. \<not> stop_called a) \<and> (\<forall>buffer. disk s buffer = None) \<longrightarrow>
      outcome_of (monitor_loop script s) = Inr Waiting \<and>
      isRunning (state_of (monitor_loop script s))) \<and>
   (isRunning s \<and> \<not> stop_called answers \<and> outcome_of (loop_body answers s) = Inl e \<and>
    disk s (logs (state_of (loop_body answers s)) @ [ErrorInMonitoringLoop e]) = None \<longrightarrow>
      (\<exists>cs. calls_of (monitor_loop (answers # following # script) s) =
             calls_of (loop_body answers s) @
             Sleep (Finite 5000) # GetTokens (tokenAddress s) # cs))"
proof (intro conjI impI)
  assume "outcome_of (loop_body answers s) = Inl e \<and>
    disk s (logs (state_of (loop_body answers s)) @ [ErrorInMonitoringLoop e]) = None"
  then show "iteration answers s =
        (Inr (),
         (state_of (loop_body answers s))
           \<lparr>logs := logs (state_of (loop_body answers s)) @ [ErrorInMonitoringLoop e]\<rparr>,
         calls_of (loop_body answers s) @ [Sleep (Finite 5000)])"
    by (simp add: iteration_recovers)
next
  assume "outcome_of (iteration answers s) = Inl x"
  then show "\<exists>cause. outcome_of (loop_body answers s) = Inl cause \<and>
      disk s (logs (state_of (loop_body answers s)) @ [ErrorInMonitoringLoop cause]) = Some x"
    by (rule iteration_raises)
next
  assume "outcome_of (monitor_loop script s) = Inl x"
  then show "\<exists>buffer. disk s buffer = Some x"
    by (rule monitor_loop_raises)
next
  assume "outcome_of (monitor_loop script s) = Inr Exited"
  then show "\<not> isRunning (state_of (monitor_loop script s))"
    by (rule monitor_loop_exits_stopped)
next
  assume a: "isRunning s \<and> (\<forall>a \<in> set script. \<not> stop_called a) \<and>
    (\<forall>buffer. disk s buffer = None)"
  then show "outcome_of (monitor_loop script s) = Inr Waiting"
    and "isRunning (state_of (monitor_loop script s))"
    using monitor_loop_keeps_running [of s script] by simp_all
next
  assume a: "isRunning s \<and> \<not> stop_called answers \<and> outcome_of (loop_body answers s) = Inl e \<and>
    disk s (logs (state_of (loop_body answers s)) @ [ErrorInMonitoringLoop e]) = None"
  define s1 where "s1 = state_of (iteration answers s)"
  have it: "iteration answers s =
      (Inr (),
       (state_of (loop_body answers s))
         \<lparr>logs := logs (state_of (loop_body answers s)) @ [ErrorInMonitoringLoop e]\<rparr>,
       calls_of (loop_body answers s) @ [Sleep (Finite 5000)])"
    using a by (simp add: iteration_recovers)
  have ok: "outcome_of (iteration answers s) = Inr ()"
    by (simp add: it)
  have run: "isRunning s1" and tok: "tokenAddress s1 = tokenAddress s"
    using a by (simp_all add: s1_def iteration_keeps)
  obtain cs where cs: "calls_of (iteration following s1) = GetTokens (tokenAddress s) # cs"
    using iteration_fetches_first [of following s1] tok by auto
  have next_calls:
    "\<exists>cs'. calls_of (monitor_loop (following # script) s1) = GetTokens (tokenAddress s) # cs'"
  proof (cases "outcome_of (iteration following s1)")
    case (Inl y)
    then show ?thesis
      using run cs by (simp add: monitor_loop_raised del: monitor_loop.simps(2))
  next
    case (Inr u)
    then show ?thesis
      using run cs by (simp add: monitor_loop_step Let_def del: monitor_loop.simps(2))
  qed
  then obtain cs' where
    cs': "calls_of (monitor_loop (following # script) s1) = GetTokens (tokenAddress s) # cs'"
    by blast
  have "calls_of (monitor_loop (answers # following # script) s) =
      calls_of (iteration answers s) @ calls_of (monitor_loop (following # script) s1)"
    using a ok by (simp add: monitor_loop_step [of s] Let_def s1_def del: monitor_loop.simps(2))
  also have "calls_of (iteration answers s) =
      calls_of (loop_body answers s) @ [Sleep (Finite 5000)]"
    by (simp add: it)
  finally show "\<exists>cs. calls_of (monitor_loop (answers # following # script) s) =
      calls_of (loop_body answers s) @ Sleep (Finite 5000) # GetTokens (tokenAddress s) # cs"
    using cs' by simp
qed

text \<open>Without \<open>conditions\<close>, the body throws once the price is fetched and logged.\<close>

lemma loop_body_unconditioned:
  assumes "conditions (config s) = None"
  shows "loop_body price_only s =
     (case saveLogs s (logs s @ [CurrentTokenPrice (Finite 1)]) of
        Inl x \<Rightarrow> Inl x
      | Inr u \<Rightarrow> Inl TypeError,
      s\<lparr>logs := logs s @ [CurrentTokenPrice (Finite 1)]\<rparr>,
      [GetTokens (tokenAddress s)])"
proof -
  have p: "request_result ''Failed to fetch token price'' (price_response price_only) =
      Inr \<lparr>price = Finite 1\<rparr>"
    by (simp add: request_result_def payload_def price_only_def)
  have c: "checkPriceConditions (config s) (Finite 1) = Inl TypeError"
    using assms by (simp add: checkPriceConditions_def)
  show ?thesis
    unfolding loop_body_def bind_self
    by (simp add: io_bind_def getTokenPrice_eq p c log_message_def io_lift_def
        split: sum.splits)
qed

text \<open>
  The bot without conditions on a disk that accepts the writes, the price 1: the body
  throws a TypeError after the price fetch, the iteration ends in the recovery sleep, and
  after two such iterations the loop is still running.
\<close>

theorem loop_survives_failures_witness:
  "isRunning unconditioned_bot \<and> \<not> stop_called price_only \<and>
   outcome_of (loop_body price_only unconditioned_bot) = Inl TypeError \<and>
   disk unconditioned_bot (logs (state_of (loop_body price_only unconditioned_bot)) @
     [ErrorInMonitoringLoop TypeError]) = None \<and>
   calls_of (iteration price_only unconditioned_bot) =
     [GetTokens (tokenAddress unconditioned_bot), Sleep (Finite 5000)] \<and>
   outcome_of (monitor_loop [price_only, price_only] unconditioned_bot) = Inr Waiting"
proof -
  have r: "isRunning unconditioned_bot"
    by (simp add: unconditioned_bot_def)
  have n: "\<not> stop_called price_only"
    by (simp add: price_only_def network_down_def)
  have d: "disk unconditioned_bot buffer = None" for buffer
    by (simp add: unconditioned_bot_def example_bot_def on_disk_def)
  have c: "conditions (config unconditioned_bot) = None"
    by (simp add: unconditioned_bot_def)
  have b: "loop_body price_only unconditioned_bot =
      (Inl TypeError,
       unconditioned_bot\<lparr>logs := logs unconditioned_bot @ [CurrentTokenPrice (Finite 1)]\<rparr>,
       [GetTokens (tokenAddress unconditioned_bot)])"
    by (simp add: loop_body_unconditioned [OF c] saveLogs_def d)
  show ?thesis
    using loop_survives_failures
      [of price_only unconditioned_bot TypeError "Error ''none''" "[price_only, price_only]"
          price_only] r n
    by (simp add: b d)
qed

text \<open>
  The claim as stated fails on a full disk: the body of the iteration throws, the write of
  the entry in the handler at the loop boundary is refused, the iteration throws, and the
  loop ends in that error with the run flag still set.
\<close>

theorem loop_ends_on_full_disk:
  "isRunning (disk_full unconditioned_bot) \<and>
   outcome_of (iteration price_only (disk_full unconditioned_bot)) = Inl (Error ''ENOSPC'') \<and>
   outcome_of (monitor_loop [price_only, price_only] (disk_full unconditioned_bot)) =
     Inl (Error ''ENOSPC'') \<and>
   isRunning (state_of (monitor_loop [price_only, price_only] (disk_full unconditioned_bot)))"
proof -
  have r: "isRunning (disk_full unconditioned_bot)"
    by (simp add: unconditioned_bot_def disk_full_def)
  have c: "conditions (config (disk_full unconditioned_bot)) = None"
    by (simp add: unconditioned_bot_def disk_full_def)
  have d: "saveLogs (disk_full unconditioned_bot) buffer = Inl (Error ''ENOSPC'')" for buffer
    by (simp add: saveLogs_def disk_full_def)
  have i: "outcome_of (iteration price_only (disk_full unconditioned_bot)) =
      Inl (Error ''ENOSPC'')"
    by (simp add: iteration_outcome loop_body_unconditioned [OF c] d)
  have "monitor_loop [price_only, price_only] (disk_full unconditioned_bot) =
      (Inl (Error ''ENOSPC''), state_of (iteration price_only (disk_full unconditioned_bot)),
       calls_of (iteration price_only (disk_full unconditioned_bot)))"
    by (rule monitor_loop_raised [OF r i])
  then show ?thesis
    using r i by (simp add: iteration_keeps)
qed

section \<open>The log buffer\<close>

lemma appends_prefix: "appends m \<Longrightarrow> prefix (logs s) (logs (state_of (m s)))"
  using appendsD [of m s] by auto

lemma stop_prefix: "prefix (logs s) (logs (state_of (stop s)))"
  by (simp add: stop_def log_message_def)

lemma monitor_loop_prefix: "prefix (logs s) (logs (state_of (monitor_loop script s)))"
proof (induction script arbitrary: s)
  case Nil
  then show ?case by simp
next
  case (Cons answers rest)
  show ?case
  proof (cases "isRunning s")
    case False
    then show ?thesis by simp
  next
    case True
    define s1 where "s1 = state_of (iteration answers s)"
    define s2 where "s2 = (if stop_called answers then state_of (stop s1) else s1)"
    have one: "prefix (logs s) (logs s1)"
      unfolding s1_def by (rule appends_prefix [OF appends_iteration])
    show ?thesis
    proof (cases "outcome_of (iteration answers s)")
      case (Inl x)
      then show ?thesis
        using True one by (simp add: monitor_loop_raised s1_def del: monitor_loop.simps(2))
    next
      case (Inr u)
      note one
      also have "prefix (logs s1) (logs s2)"
        by (simp add: s2_def stop_prefix)
      also have "prefix (logs s2) (logs (state_of (monitor_loop rest s2)))"
        by (rule Cons.IH)
      finally have "prefix (logs s) (logs (state_of (monitor_loop rest s2)))" .
      moreover have
        "state_of (monitor_loop (answers # rest) s) = state_of (monitor_loop rest s2)"
        using True Inr
        by (simp add: monitor_loop_step Let_def s1_def s2_def del: monitor_loop.simps(2))
      ultimately show ?thesis by simp
    qed
  qed
qed

lemma monitorAndSwap_prefix: "prefix (logs s) (logs (state_of (monitorAndSwap script s)))"
proof -
  define s1 where "s1 = s\<lparr>logs := logs s @ [StartingPriceMonitoring]\<rparr>"
  have "prefix (logs s) (logs s1)"
    by (simp add: s1_def)
  moreover have "prefix (logs s1) (logs (state_of (monitor_loop script s1)))"
    by (rule monitor_loop_prefix)
  ultimately have "prefix (logs s) (logs (state_of (monitor_loop script s1)))"
    by (rule prefix_order.trans)
  then show ?thesis
    by (simp add: monitorAndSwap_def bind_log s1_def split: sum.splits)
qed

lemma start_prefix: "prefix (logs s) (logs (state_of (start script s)))"
proof (cases "isRunning s")
  case True
  then show ?thesis by (simp add: start_def log_message_def)
next
  case False
  define s1 where "s1 = s\<lparr>isRunning := True, logs := logs s @ [StartingBot]\<rparr>"
  have "prefix (logs s) (logs s1)"
    by (simp add: s1_def)
  moreover have "prefix (logs s1) (logs (state_of (monitorAndSwap script s1)))"
    by (rule monitorAndSwap_prefix)
  ultimately have "prefix (logs s) (logs (state_of (monitorAndSwap script s1)))"
    by (rule prefix_order.trans)
  then show ?thesis
    using False
    by (auto simp: start_def bind_log s1_def state_of_def split: sum.splits prod.splits)
qed

lemma perform_prefix: "prefix (logs s) (logs (perform x s))"
  by (cases x)
     (simp_all add: start_prefix stop_prefix monitorAndSwap_prefix
        appends_prefix [OF appends_iteration] appends_prefix [OF appends_getTokenPrice]
        appends_prefix [OF appends_getSwapQuote] appends_prefix [OF appends_executeSwap]
        appends_prefix [OF appends_getWalletBalance])

lemma perform_all_prefix: "prefix (logs s) (logs (perform_all xs s))"
proof (induction xs arbitrary: s)
  case Nil
  then show ?case by simp
next
  case (Cons x xs)
  have "prefix (logs s) (logs (perform x s))" by (rule perform_prefix)
  also have "prefix \<dots> (logs (perform_all xs (perform x s)))" by (rule Cons.IH)
  finally show ?case by simp
qed

text \<open>
  Claim C10. The log buffer is append-only: after any operation of the bot, and after
  any sequence of operations, the buffer is the buffer before with entries added at its
  end, so the \<open>logsCount\<close> that \<open>getStatus\<close> reports never decreases.
\<close>

theorem logs_append_only:
  "prefix (logs s) (logs (perform x s)) \<and>
   prefix (logs s) (logs (perform_all xs s)) \<and>
   logsCount (getStatus s) \<le> logsCount (getStatus (perform_all xs s))"
proof -
  have "prefix (logs s) (logs (perform_all xs s))" by (rule perform_all_prefix)
  then show ?thesis
    by (simp add: perform_prefix getStatus_def prefix_length_le)
qed

end
